theory Spec2Isabelle
  imports Complex_Main "HOL-Library.AList"
begin

section \<open>Python values\<close>

text \<open>
  The program is a single Python module, \<^verbatim>\<open>main.py\<close>. Rule files, the flagged store and
  a container's \<^verbatim>\<open>package.json\<close> are read with \<^verbatim>\<open>json.load\<close>, so the values the code
  handles are the ones \<^verbatim>\<open>json.load\<close> builds: \<^verbatim>\<open>None\<close>, booleans, integers, floats,
  strings, lists and dictionaries with string keys. A dictionary is an association list in
  insertion order. A character is a Unicode code point below 256 (\<open>CHR 0xC9\<close> is the
  letter E with an acute accent, \<open>CHR 0xA0\<close> the no-break space); text with other code
  points is outside the model. A float is only ever tested for truth and compared, never
  added; its value is a real number, an infinity or a NaN.
  Exceptions are values: a function that may raise returns \<open>exn + 'a\<close>.
\<close>

datatype exn =
  KeyError | TypeError | ValueError | AttributeError | IndexError | OverflowError
  | OSError | NotFound | DockerError | HttpError

datatype pyfloat = Fin real | PInf | NInf | NaN

datatype json =
  JNull | JBool bool | JInt int | JFloat pyfloat | JStr string
  | JArr "json list" | JObj "(string \<times> json) list"

text \<open>Truth value testing (\<^verbatim>\<open>if x:\<close>, \<^verbatim>\<open>not x\<close>).\<close>

fun truthy :: "json \<Rightarrow> bool" where
  "truthy JNull = False"
| "truthy (JBool b) = b"
| "truthy (JInt n) = (n \<noteq> 0)"
| "truthy (JFloat (Fin r)) = (r \<noteq> 0)"
| "truthy (JFloat f) = True"
| "truthy (JStr s) = (s \<noteq> [])"
| "truthy (JArr xs) = (xs \<noteq> [])"
| "truthy (JObj kv) = (kv \<noteq> [])"

text \<open>\<^verbatim>\<open>d.get(k)\<close> and \<^verbatim>\<open>d.get(k, default)\<close> on a dictionary.\<close>

definition dict_get :: "(string \<times> json) list \<Rightarrow> string \<Rightarrow> json" where
  "dict_get d k = (case map_of d k of None \<Rightarrow> JNull | Some v \<Rightarrow> v)"

definition dict_get_default :: "(string \<times> json) list \<Rightarrow> string \<Rightarrow> json \<Rightarrow> json" where
  "dict_get_default d k dflt = (case map_of d k of None \<Rightarrow> dflt | Some v \<Rightarrow> v)"

text \<open>
  \<^verbatim>\<open>x[k]\<close> with a string key: a dictionary answers or raises \<^verbatim>\<open>KeyError\<close>, every other
  value raises \<^verbatim>\<open>TypeError\<close>.
\<close>

fun py_subscript :: "json \<Rightarrow> string \<Rightarrow> exn + json" where
  "py_subscript (JObj d) k = (case map_of d k of None \<Rightarrow> Inl KeyError | Some v \<Rightarrow> Inr v)"
| "py_subscript j k = Inl TypeError"

text \<open>\<^verbatim>\<open>x.get(k, default)\<close> on any value: only a dictionary has \<^verbatim>\<open>get\<close>.\<close>

fun py_get :: "json \<Rightarrow> string \<Rightarrow> json \<Rightarrow> exn + json" where
  "py_get (JObj d) k dflt = Inr (dict_get_default d k dflt)"
| "py_get j k dflt = Inl AttributeError"

text \<open>
  \<^verbatim>\<open>for x in v\<close>: a list yields its elements, a string its characters, a dictionary its
  keys; nothing else is iterable.
\<close>

fun py_iter :: "json \<Rightarrow> exn + json list" where
  "py_iter (JArr xs) = Inr xs"
| "py_iter (JStr s) = Inr (map (\<lambda>c. JStr [c]) s)"
| "py_iter (JObj d) = Inr (map (\<lambda>kv. JStr (fst kv)) d)"
| "py_iter j = Inl TypeError"

text \<open>
  Ordering. The left operand of every \<^verbatim>\<open>>\<close> in the module is a number (a file size, a
  byte total, a parsed CPU value); the right operand is a limit read from a rule file.
  Python compares integers, booleans and floats exactly, answers \<^verbatim>\<open>False\<close> when a NaN is
  involved, and raises \<^verbatim>\<open>TypeError\<close> when the right operand is not a number.
\<close>

fun fl_less :: "pyfloat \<Rightarrow> pyfloat \<Rightarrow> bool" where
  "fl_less NaN b = False"
| "fl_less a NaN = False"
| "fl_less (Fin a) (Fin b) = (a < b)"
| "fl_less a NInf = False"
| "fl_less NInf b = True"
| "fl_less PInf b = False"
| "fl_less a PInf = True"

fun as_number :: "json \<Rightarrow> pyfloat option" where
  "as_number (JBool b) = Some (Fin (if b then 1 else 0))"
| "as_number (JInt n) = Some (Fin (of_int n))"
| "as_number (JFloat f) = Some f"
| "as_number j = None"

definition py_gt :: "pyfloat \<Rightarrow> json \<Rightarrow> exn + bool" where
  "py_gt a limit = (case as_number limit of None \<Rightarrow> Inl TypeError | Some b \<Rightarrow> Inr (fl_less b a))"

subsection \<open>Strings and paths\<close>

text \<open>
  The characters \<^verbatim>\<open>str.isspace\<close> accepts, which are the ones \<^verbatim>\<open>str.split()\<close> splits at
  and \<^verbatim>\<open>str.strip()\<close> removes: the code points 9 to 13, 28 to 32, 133 (next line) and
  160 (no-break space).
\<close>

definition is_space :: "char \<Rightarrow> bool" where
  "is_space c =
     (let n = (of_char c :: nat)
      in (9 \<le> n \<and> n \<le> 13) \<or> (28 \<le> n \<and> n \<le> 32) \<or> n = 133 \<or> n = 160)"

definition py_strip :: "string \<Rightarrow> string" where
  "py_strip s = rev (dropWhile is_space (rev (dropWhile is_space s)))"

text \<open>\<^verbatim>\<open>s.split()\<close>: the maximal runs of non-space characters.\<close>

fun split_ws :: "string \<Rightarrow> string \<Rightarrow> string list" where
  "split_ws cur [] = (if cur = [] then [] else [cur])"
| "split_ws cur (c # cs) =
     (if is_space c then (if cur = [] then split_ws [] cs else cur # split_ws [] cs)
      else split_ws (cur @ [c]) cs)"

definition py_split :: "string \<Rightarrow> string list" where
  "py_split s = split_ws [] s"

text \<open>\<^verbatim>\<open>s.split('\n')\<close>: the pieces between line feeds, empty ones kept.\<close>

fun split_nl :: "string \<Rightarrow> string \<Rightarrow> string list" where
  "split_nl cur [] = [cur]"
| "split_nl cur (c # cs) =
     (if c = CHR 0x0A then cur # split_nl [] cs else split_nl (cur @ [c]) cs)"

definition py_split_lines :: "string \<Rightarrow> string list" where
  "py_split_lines s = split_nl [] s"

text \<open>
  \<^verbatim>\<open>str.lower()\<close> maps character by character on these code points: the letters A to Z
  and the accented capitals 192 to 222 (but not the multiplication sign 215) go to the
  code point 32 above, everything else stays.
\<close>

definition upper_case :: string where
  "upper_case =
     ''ABCDEFGHIJKLMNOPQRSTUVWXYZ''
     @ [CHR 0xC0, CHR 0xC1, CHR 0xC2, CHR 0xC3, CHR 0xC4, CHR 0xC5, CHR 0xC6, CHR 0xC7,
        CHR 0xC8, CHR 0xC9, CHR 0xCA, CHR 0xCB, CHR 0xCC, CHR 0xCD, CHR 0xCE, CHR 0xCF,
        CHR 0xD0, CHR 0xD1, CHR 0xD2, CHR 0xD3, CHR 0xD4, CHR 0xD5, CHR 0xD6,
        CHR 0xD8, CHR 0xD9, CHR 0xDA, CHR 0xDB, CHR 0xDC, CHR 0xDD, CHR 0xDE]"

definition lower_case :: string where
  "lower_case =
     ''abcdefghijklmnopqrstuvwxyz''
     @ [CHR 0xE0, CHR 0xE1, CHR 0xE2, CHR 0xE3, CHR 0xE4, CHR 0xE5, CHR 0xE6, CHR 0xE7,
        CHR 0xE8, CHR 0xE9, CHR 0xEA, CHR 0xEB, CHR 0xEC, CHR 0xED, CHR 0xEE, CHR 0xEF,
        CHR 0xF0, CHR 0xF1, CHR 0xF2, CHR 0xF3, CHR 0xF4, CHR 0xF5, CHR 0xF6,
        CHR 0xF8, CHR 0xF9, CHR 0xFA, CHR 0xFB, CHR 0xFC, CHR 0xFD, CHR 0xFE]"

definition lower_char :: "char \<Rightarrow> char" where
  "lower_char c = (case map_of (zip upper_case lower_case) c of None \<Rightarrow> c | Some l \<Rightarrow> l)"

definition py_lower :: "string \<Rightarrow> string" where
  "py_lower s = map lower_char s"

text \<open>\<^verbatim>\<open>p in s\<close> on strings: \<open>p\<close> occurs in \<open>s\<close> as a contiguous substring.\<close>

fun py_in :: "string \<Rightarrow> string \<Rightarrow> bool" where
  "py_in p [] = (p = [])"
| "py_in p (c # cs) = (take (length p) (c # cs) = p \<or> py_in p cs)"

text \<open>\<^verbatim>\<open>', '.join(xs)\<close>.\<close>

fun join_comma :: "string list \<Rightarrow> string" where
  "join_comma [] = []"
| "join_comma [x] = x"
| "join_comma (x # y # ys) = x @ '', '' @ join_comma (y # ys)"

text \<open>\<^verbatim>\<open>os.path.join(a, b)\<close> and \<^verbatim>\<open>os.path.basename(p)\<close> on POSIX.\<close>

definition os_path_join :: "string \<Rightarrow> string \<Rightarrow> string" where
  "os_path_join a b =
     (if b \<noteq> [] \<and> hd b = CHR ''/'' then b
      else if a = [] then b
      else if last a = CHR ''/'' then a @ b
      else a @ ''/'' @ b)"

definition basename :: "string \<Rightarrow> string" where
  "basename p = rev (takeWhile (\<lambda>c. c \<noteq> CHR ''/'') (rev p))"

section \<open>The environment of a sweep\<close>

text \<open>
  Everything the module reads from outside is a field of \<open>world\<close>: the file system below
  \<^verbatim>\<open>VOLUMES_DIR\<close>, the Docker client, the panel's server list and the rule directory. A
  call that may raise answers \<open>exn + 'a\<close>. Within one sweep the world is a fixed snapshot.
  Two built-ins are parameters as well: \<^verbatim>\<open>float(s)\<close> (\<open>None\<close> is its \<^verbatim>\<open>ValueError\<close>), and
  \<^verbatim>\<open>str.format\<close> on the part of a template that starts at a replacement field with a
  conversion, a format specification, an attribute or an index (\<open>py_format_rest\<close>).

  A container handle answers three calls: \<^verbatim>\<open>logs(tail=1000).decode('utf-8')\<close>,
  \<^verbatim>\<open>exec_run(cmd, ...).output.decode('utf-8')\<close> and \<^verbatim>\<open>stats(stream=False)\<close>. The statistics
  follow the Docker schema: an optional table of interfaces, each with optional integer
  byte counters.
\<close>

record net_counters =
  rx_bytes :: "int option"
  tx_bytes :: "int option"

record container_stats =
  networks :: "(string \<times> net_counters) list option"

record container =
  logs_tail :: "exn + string"
  exec_run :: "json \<Rightarrow> exn + string"
  stats :: "exn + container_stats"

record world =
  volumes_dir :: string
  listdir :: "exn + string list"
  path_exists :: "string \<Rightarrow> bool"
  glob_glob :: "string \<Rightarrow> string list"
  read_text :: "string \<Rightarrow> exn + string"
  getsize :: "string \<Rightarrow> exn + int"
  load_json :: "string \<Rightarrow> exn + json"
  containers_get :: "string \<Rightarrow> exn + container"
  panel_servers :: "exn + json"
  strategy_files :: "(string \<times> (exn + json)) list"
  py_float :: "string \<Rightarrow> pyfloat option"
  py_format_rest :: "string \<Rightarrow> (string \<times> string) list \<Rightarrow> exn + string"

section \<open>Evidence\<close>

text \<open>
  An evaluator returns \<^verbatim>\<open>False\<close> (here \<open>None\<close>) or a dictionary with some of the keys
  \<^verbatim>\<open>pattern\<close>, \<^verbatim>\<open>filename\<close>, \<^verbatim>\<open>dependency\<close>, \<^verbatim>\<open>usage\<close>, \<^verbatim>\<open>processes\<close>.
\<close>

record evidence =
  pattern :: "string option"
  filename :: "string option"
  dependency :: "string option"
  usage :: "int option"
  processes :: "string list option"

definition no_evidence :: evidence where
  "no_evidence = \<lparr>pattern = None, filename = None, dependency = None, usage = None, processes = None\<rparr>"

section \<open>Evaluators\<close>

subsection \<open>File checks\<close>

fun existence_loop :: "world \<Rightarrow> string \<Rightarrow> json list \<Rightarrow> exn + evidence option" where
  "existence_loop w target_path [] = Inr None"
| "existence_loop w target_path (p # ps) =
     (case p of
        JStr pat \<Rightarrow>
          (case glob_glob w (os_path_join target_path pat) of
             [] \<Rightarrow> existence_loop w target_path ps
           | m # ms \<Rightarrow> Inr (Some (no_evidence\<lparr>filename := Some (basename m)\<rparr>)))
      | _ \<Rightarrow> Inl TypeError)"

definition file_existence_check :: "world \<Rightarrow> string \<Rightarrow> (string \<times> json) list \<Rightarrow> exn + evidence option" where
  "file_existence_check w target_path check_config =
     (case py_iter (dict_get_default check_config ''patterns'' (JArr [])) of
        Inl e \<Rightarrow> Inl e
      | Inr patterns \<Rightarrow> existence_loop w target_path patterns)"

fun content_loop :: "string \<Rightarrow> json list \<Rightarrow> exn + evidence option" where
  "content_loop content [] = Inr None"
| "content_loop content (p # ps) =
     (case p of
        JStr pat \<Rightarrow>
          (if py_in pat content then Inr (Some (no_evidence\<lparr>pattern := Some pat\<rparr>))
           else content_loop content ps)
      | _ \<Rightarrow> Inl TypeError)"

definition file_content_check :: "world \<Rightarrow> string \<Rightarrow> (string \<times> json) list \<Rightarrow> exn + evidence option" where
  "file_content_check w target_path check_config =
     (let patterns = dict_get_default check_config ''patterns'' (JArr []) in
      if path_exists w target_path then
        (case read_text w target_path of
           Inl e \<Rightarrow> Inl e
         | Inr content \<Rightarrow>
             (case py_iter patterns of
                Inl e \<Rightarrow> Inl e
              | Inr ps \<Rightarrow> content_loop content ps))
      else Inr None)"

definition file_size_check :: "world \<Rightarrow> string \<Rightarrow> (string \<times> json) list \<Rightarrow> exn + evidence option" where
  "file_size_check w target_path check_config =
     (let max_size = dict_get_default check_config ''max_size'' (JInt 0) in
      if path_exists w target_path then
        (case getsize w target_path of
           Inl e \<Rightarrow> Inl e
         | Inr sz \<Rightarrow>
             (case py_gt (Fin (of_int sz)) max_size of
                Inl e \<Rightarrow> Inl e
              | Inr exceeds \<Rightarrow>
                  if exceeds then Inr (Some (no_evidence\<lparr>filename := Some (basename target_path)\<rparr>))
                  else Inr None))
      else Inr None)"

text \<open>
  \<^verbatim>\<open>file_check\<close> reads \<^verbatim>\<open>check_config['type']\<close> on both paths: in the message it prints
  when \<^verbatim>\<open>path\<close> is missing, and in the dispatch after \<^verbatim>\<open>os.path.join\<close>, which raises
  \<^verbatim>\<open>TypeError\<close> when \<^verbatim>\<open>path\<close> is not a string.
\<close>

definition file_check :: "world \<Rightarrow> string \<Rightarrow> (string \<times> json) list \<Rightarrow> exn + evidence option" where
  "file_check w volume_path check_config =
     (if \<not> truthy (dict_get check_config ''path'') then
        (case map_of check_config ''type'' of None \<Rightarrow> Inl KeyError | Some ty \<Rightarrow> Inr None)
      else
        (case dict_get check_config ''path'' of
           JStr p \<Rightarrow>
             (let target_path = os_path_join volume_path p in
              case map_of check_config ''type'' of
                None \<Rightarrow> Inl KeyError
              | Some ty \<Rightarrow>
                  if ty = JStr ''file_existence'' then file_existence_check w target_path check_config
                  else if ty = JStr ''file_content'' then file_content_check w target_path check_config
                  else if ty = JStr ''file_size'' then file_size_check w target_path check_config
                  else Inl ValueError)
         | _ \<Rightarrow> Inl TypeError))"

subsection \<open>Dependencies\<close>

text \<open>
  \<^verbatim>\<open>dependencies.update(x)\<close> needs \<^verbatim>\<open>dependencies\<close> to be a dictionary. A dictionary \<open>x\<close>
  adds its keys; a list adds one key per element, each element a sequence of length two
  whose first item is hashable; an empty string adds nothing; anything else raises. The
  loops below only read the keys, in order, until the first hit or the first exception, so
  a key that is already present may stay in the list a second time.
\<close>

fun update_element_key :: "json \<Rightarrow> exn + json" where
  "update_element_key (JArr [k, v]) =
     (case k of JArr xs \<Rightarrow> Inl TypeError | JObj d \<Rightarrow> Inl TypeError | _ \<Rightarrow> Inr k)"
| "update_element_key (JArr xs) = Inl ValueError"
| "update_element_key (JStr [a, b]) = Inr (JStr [a])"
| "update_element_key (JStr s) = Inl ValueError"
| "update_element_key (JObj [kv1, kv2]) = Inr (JStr (fst kv1))"
| "update_element_key (JObj d) = Inl ValueError"
| "update_element_key j = Inl TypeError"

fun update_elements_keys :: "json list \<Rightarrow> exn + json list" where
  "update_elements_keys [] = Inr []"
| "update_elements_keys (x # xs) =
     (case update_element_key x of
        Inl e \<Rightarrow> Inl e
      | Inr k \<Rightarrow> (case update_elements_keys xs of Inl e \<Rightarrow> Inl e | Inr ks \<Rightarrow> Inr (k # ks)))"

fun update_keys :: "json \<Rightarrow> exn + json list" where
  "update_keys (JObj d) = Inr (map (\<lambda>kv. JStr (fst kv)) d)"
| "update_keys (JArr xs) = update_elements_keys xs"
| "update_keys (JStr s) = (if s = [] then Inr [] else Inl ValueError)"
| "update_keys j = Inl TypeError"

definition merged_dependency_keys :: "json \<Rightarrow> exn + json list" where
  "merged_dependency_keys package_data =
     (case py_get package_data ''dependencies'' (JObj []) of
        Inl e \<Rightarrow> Inl e
      | Inr dependencies \<Rightarrow>
          (case dependencies of
             JObj d \<Rightarrow>
               (case py_get package_data ''devDependencies'' (JObj []) of
                  Inl e \<Rightarrow> Inl e
                | Inr dev \<Rightarrow>
                    (case update_keys dev of
                       Inl e \<Rightarrow> Inl e
                     | Inr ks \<Rightarrow> Inr (map (\<lambda>kv. JStr (fst kv)) d @ ks)))
           | _ \<Rightarrow> Inl AttributeError))"

fun dep_names_loop :: "json \<Rightarrow> json list \<Rightarrow> exn + string option" where
  "dep_names_loop p [] = Inr None"
| "dep_names_loop p (k # ks) =
     (case p of
        JStr pat \<Rightarrow>
          (case k of
             JStr dep_name \<Rightarrow>
               (if py_in (py_lower pat) (py_lower dep_name) then Inr (Some dep_name)
                else dep_names_loop p ks)
           | _ \<Rightarrow> Inl AttributeError)
      | _ \<Rightarrow> Inl AttributeError)"

fun dep_patterns_loop :: "json list \<Rightarrow> json list \<Rightarrow> exn + string option" where
  "dep_patterns_loop [] ks = Inr None"
| "dep_patterns_loop (p # ps) ks =
     (case dep_names_loop p ks of
        Inl e \<Rightarrow> Inl e
      | Inr (Some dep_name) \<Rightarrow> Inr (Some dep_name)
      | Inr None \<Rightarrow> dep_patterns_loop ps ks)"

text \<open>The body of the \<^verbatim>\<open>try\<close> of \<^verbatim>\<open>dependency_check\<close>.\<close>

definition dependency_scan :: "world \<Rightarrow> string \<Rightarrow> json \<Rightarrow> exn + string option" where
  "dependency_scan w package_file patterns =
     (case load_json w package_file of
        Inl e \<Rightarrow> Inl e
      | Inr package_data \<Rightarrow>
          (case merged_dependency_keys package_data of
             Inl e \<Rightarrow> Inl e
           | Inr ks \<Rightarrow>
               (case py_iter patterns of
                  Inl e \<Rightarrow> Inl e
                | Inr ps \<Rightarrow> dep_patterns_loop ps ks)))"

definition dependency_check :: "world \<Rightarrow> string \<Rightarrow> (string \<times> json) list \<Rightarrow> exn + evidence option" where
  "dependency_check w volume_path check_config =
     (let file_name = dict_get_default check_config ''file'' (JStr ''package.json'');
          patterns = dict_get_default check_config ''patterns'' (JArr [])
      in case file_name of
           JStr fname \<Rightarrow>
             (let package_file = os_path_join volume_path fname in
              if path_exists w package_file then
                (case dependency_scan w package_file patterns of
                   Inl e \<Rightarrow> Inr None
                 | Inr None \<Rightarrow> Inr None
                 | Inr (Some dep_name) \<Rightarrow> Inr (Some (no_evidence\<lparr>dependency := Some dep_name\<rparr>)))
              else Inr None)
         | _ \<Rightarrow> Inl TypeError)"

subsection \<open>Logs, processes, network\<close>

fun log_loop :: "string \<Rightarrow> json list \<Rightarrow> exn + evidence option" where
  "log_loop logs [] = Inr None"
| "log_loop logs (p # ps) =
     (case p of
        JStr pat \<Rightarrow>
          (if py_in (py_lower pat) (py_lower logs) then Inr (Some (no_evidence\<lparr>pattern := Some pat\<rparr>))
           else log_loop logs ps)
      | _ \<Rightarrow> Inl AttributeError)"

definition log_content_check :: "container \<Rightarrow> (string \<times> json) list \<Rightarrow> exn + evidence option" where
  "log_content_check cont check_config =
     (let patterns = dict_get_default check_config ''patterns'' (JArr []) in
      case logs_tail cont of
        Inl e \<Rightarrow> Inr None
      | Inr logs \<Rightarrow>
          (case py_iter patterns of
             Inl e \<Rightarrow> Inr None
           | Inr ps \<Rightarrow> (case log_loop logs ps of Inl e \<Rightarrow> Inr None | Inr r \<Rightarrow> Inr r)))"

text \<open>
  The loop over the output lines of \<^verbatim>\<open>process_check\<close>. The inner handler catches the
  \<^verbatim>\<open>ValueError\<close> of \<^verbatim>\<open>float\<close> only; a \<^verbatim>\<open>TypeError\<close> of the comparison leaves the loop.
\<close>

fun process_loop :: "(string \<Rightarrow> pyfloat option) \<Rightarrow> json \<Rightarrow> string list \<Rightarrow> string list \<Rightarrow> exn + string list" where
  "process_loop pf cpu_threshold [] high_cpu_processes = Inr high_cpu_processes"
| "process_loop pf cpu_threshold (line # rest) high_cpu_processes =
     (let parts = py_split (py_strip line) in
      if length parts > 8 then
        (case pf (parts ! 8) of
           None \<Rightarrow> process_loop pf cpu_threshold rest high_cpu_processes
         | Some cpu_usage \<Rightarrow>
             (case py_gt cpu_usage cpu_threshold of
                Inl e \<Rightarrow> Inl e
              | Inr exceeds \<Rightarrow>
                  if exceeds then process_loop pf cpu_threshold rest (high_cpu_processes @ [py_strip line])
                  else process_loop pf cpu_threshold rest high_cpu_processes))
      else process_loop pf cpu_threshold rest high_cpu_processes)"

definition process_check :: "world \<Rightarrow> container \<Rightarrow> (string \<times> json) list \<Rightarrow> exn + evidence option" where
  "process_check w cont check_config =
     (let cmd = dict_get check_config ''command'';
          cpu_threshold = dict_get_default check_config ''cpu_threshold'' (JInt 0)
      in case exec_run cont cmd of
           Inl e \<Rightarrow> Inr None
         | Inr output \<Rightarrow>
             (case process_loop (py_float w) cpu_threshold (py_split_lines (py_strip output)) [] of
                Inl e \<Rightarrow> Inr None
              | Inr high_cpu_processes \<Rightarrow>
                  if high_cpu_processes = [] then Inr None
                  else Inr (Some (no_evidence\<lparr>processes := Some high_cpu_processes\<rparr>))))"

definition interface_bytes :: "net_counters \<Rightarrow> int" where
  "interface_bytes net =
     (case rx_bytes net of None \<Rightarrow> 0 | Some r \<Rightarrow> r) + (case tx_bytes net of None \<Rightarrow> 0 | Some t \<Rightarrow> t)"

definition total_usage :: "container_stats \<Rightarrow> int" where
  "total_usage s =
     sum_list (map (\<lambda>entry. interface_bytes (snd entry)) (case networks s of None \<Rightarrow> [] | Some nets \<Rightarrow> nets))"

definition network_usage_check :: "container \<Rightarrow> (string \<times> json) list \<Rightarrow> exn + evidence option" where
  "network_usage_check cont check_config =
     (let threshold = dict_get_default check_config ''threshold'' (JInt 0) in
      case stats cont of
        Inl e \<Rightarrow> Inr None
      | Inr s \<Rightarrow>
          (case py_gt (Fin (of_int (total_usage s))) threshold of
             Inl e \<Rightarrow> Inr None
           | Inr exceeds \<Rightarrow>
               if exceeds then Inr (Some (no_evidence\<lparr>usage := Some (total_usage s)\<rparr>))
               else Inr None))"

section \<open>Rendering a flag\<close>

text \<open>
  \<^verbatim>\<open>f"{n / 1024 / 1024:.2f}"\<close> for an integer \<open>n\<close>. True division of integers is correctly
  rounded to 53 significant bits and raises \<^verbatim>\<open>OverflowError\<close> beyond the float range; the
  two divisions by a power of two are then exact, and \<^verbatim>\<open>.2f\<close> rounds the exact value to
  hundredths, ties to even, keeping the sign.
\<close>

fun bit_len :: "int \<Rightarrow> nat" where
  "bit_len n = (if n \<le> 0 then 0 else Suc (bit_len (n div 2)))"

declare bit_len.simps [simp del]

definition round_half_even :: "int \<Rightarrow> int \<Rightarrow> int" where
  "round_half_even num den =
     (let q = num div den; r = num mod den in
      if 2 * r > den then q + 1 else if 2 * r = den \<and> q mod 2 = 1 then q + 1 else q)"

definition round53 :: "int \<Rightarrow> int" where
  "round53 a =
     (if a < 2 ^ 53 then a
      else (let e = bit_len a - 53 in round_half_even a (2 ^ e) * 2 ^ e))"

definition digit_char :: "nat \<Rightarrow> char" where
  "digit_char d = ''0123456789'' ! d"

fun decimal :: "int \<Rightarrow> string" where
  "decimal n =
     (if n < 10 then [digit_char (nat n)] else decimal (n div 10) @ [digit_char (nat (n mod 10))])"

declare decimal.simps [simp del]

definition usage_text :: "int \<Rightarrow> string" where
  "usage_text n =
     (let c = round_half_even (round53 \<bar>n\<bar> * 100) (2 ^ 20) in
      (if n < 0 then ''-'' else [])
      @ decimal (c div 100) @ ''.''
      @ [digit_char (nat ((c mod 100) div 10)), digit_char (nat (c mod 10))])"

definition format_usage :: "int \<Rightarrow> exn + string" where
  "format_usage n = (if round53 \<bar>n\<bar> \<ge> 2 ^ 1034 then Inl OverflowError else Inr (usage_text n))"

text \<open>
  \<^verbatim>\<open>template.format(**kw)\<close> with keyword arguments only. Literal text is copied,
  \<^verbatim>\<open>{{\<close> and \<^verbatim>\<open>}}\<close> stand for one brace, a lone brace raises \<^verbatim>\<open>ValueError\<close>. A field
  \<^verbatim>\<open>{name}\<close> is looked up among the keywords (\<^verbatim>\<open>KeyError\<close> when absent); an empty or
  numeric name asks for a positional argument and raises \<^verbatim>\<open>IndexError\<close>. The scan is left
  to right and stops at the first exception. A field with \<^verbatim>\<open>!\<close>, \<^verbatim>\<open>:\<close>, \<^verbatim>\<open>.\<close> or \<^verbatim>\<open>[\<close>, and a
  numeric name of more than 18 digits, is handed with the rest of the template to
  \<open>py_format_rest\<close>.
\<close>

definition emit :: "string \<Rightarrow> exn + string \<Rightarrow> exn + string" where
  "emit s r = (case r of Inl e \<Rightarrow> Inl e | Inr t \<Rightarrow> Inr (s @ t))"

definition is_digit :: "char \<Rightarrow> bool" where
  "is_digit c = (let n = (of_char c :: nat) in 48 \<le> n \<and> n \<le> 57)"

definition is_special :: "char \<Rightarrow> bool" where
  "is_special c = (c = CHR ''!'' \<or> c = CHR '':'' \<or> c = CHR ''.'' \<or> c = CHR ''['')"

fun format_text :: "world \<Rightarrow> (string \<times> string) list \<Rightarrow> string \<Rightarrow> exn + string"
  and format_field :: "world \<Rightarrow> (string \<times> string) list \<Rightarrow> string \<Rightarrow> string \<Rightarrow> exn + string" where
  "format_text w kw [] = Inr []"
| "format_text w kw (c # cs) =
     (if c = CHR 0x7B then
        (case cs of
           [] \<Rightarrow> Inl ValueError
         | d # ds \<Rightarrow> if d = CHR 0x7B then emit [c] (format_text w kw ds) else format_field w kw [] cs)
      else if c = CHR 0x7D then
        (case cs of
           [] \<Rightarrow> Inl ValueError
         | d # ds \<Rightarrow> if d = CHR 0x7D then emit [c] (format_text w kw ds) else Inl ValueError)
      else emit [c] (format_text w kw cs))"
| "format_field w kw name [] = Inl ValueError"
| "format_field w kw name (c # cs) =
     (if c = CHR 0x7D then
        (if list_all is_digit name then
           (if length name \<le> 18 then Inl IndexError
            else py_format_rest w (CHR 0x7B # name @ c # cs) kw)
         else (case map_of kw name of
                 None \<Rightarrow> Inl KeyError
               | Some v \<Rightarrow> emit v (format_text w kw cs)))
      else if c = CHR 0x7B then Inl ValueError
      else if is_special c then py_format_rest w (CHR 0x7B # name @ c # cs) kw
      else format_field w kw (name @ [c]) cs)"

definition replace_placeholders :: "world \<Rightarrow> json \<Rightarrow> evidence \<Rightarrow> exn + string" where
  "replace_placeholders w template data =
     (case template of
        JStr t \<Rightarrow>
          (case format_usage (case usage data of None \<Rightarrow> 0 | Some u \<Rightarrow> u) of
             Inl e \<Rightarrow> Inl e
           | Inr u \<Rightarrow>
               format_text w
                 [(''pattern'', case pattern data of None \<Rightarrow> [] | Some p \<Rightarrow> p),
                  (''filename'', case filename data of None \<Rightarrow> [] | Some f \<Rightarrow> f),
                  (''dependency'', case dependency data of None \<Rightarrow> [] | Some d \<Rightarrow> d),
                  (''usage'', u),
                  (''processes'', join_comma (case processes data of None \<Rightarrow> [] | Some ps \<Rightarrow> ps))]
                 t)
      | _ \<Rightarrow> Inl AttributeError)"

section \<open>Strategy executor\<close>

text \<open>
  The body of the \<^verbatim>\<open>try\<close> in the loop of \<^verbatim>\<open>execute_strategy\<close>: dispatch on
  \<^verbatim>\<open>check_config['type']\<close>, then render the message when the evaluator returned evidence.
  \<open>Inr None\<close> is "no flag": the evaluator returned \<^verbatim>\<open>False\<close>, or the type is unknown and the
  loop goes on with \<^verbatim>\<open>continue\<close>.
\<close>

definition check_body :: "world \<Rightarrow> string \<Rightarrow> container \<Rightarrow> (string \<times> json) list \<Rightarrow> json \<Rightarrow> exn + string option" where
  "check_body w volume_path cont check_config message_template =
     (let ty = dict_get check_config ''type'' in
      case (if ty = JStr ''file_existence'' \<or> ty = JStr ''file_content'' \<or> ty = JStr ''file_size''
              then Some (file_check w volume_path check_config)
            else if ty = JStr ''dependency'' then Some (dependency_check w volume_path check_config)
            else if ty = JStr ''log_content'' then Some (log_content_check cont check_config)
            else if ty = JStr ''process_check'' then Some (process_check w cont check_config)
            else if ty = JStr ''network_usage'' then Some (network_usage_check cont check_config)
            else None) of
        None \<Rightarrow> Inr None
      | Some (Inl e) \<Rightarrow> Inl e
      | Some (Inr None) \<Rightarrow> Inr None
      | Some (Inr (Some flag_data)) \<Rightarrow>
          (case replace_placeholders w message_template flag_data of
             Inl e \<Rightarrow> Inl e
           | Inr message \<Rightarrow> Inr (Some message)))"

text \<open>
  One round of the loop: the flags it appends. A configuration that is falsy, not a
  dictionary or without a truthy \<^verbatim>\<open>type\<close> is skipped; an exception of the body is caught
  and printed.
\<close>

definition check_flags :: "world \<Rightarrow> string \<Rightarrow> container \<Rightarrow> json \<Rightarrow> string list" where
  "check_flags w volume_path cont c =
     (case c of
        JObj check_config \<Rightarrow>
          (if check_config = [] then []
           else if \<not> truthy (dict_get check_config ''type'') then []
           else (let message_template =
                       dict_get_default check_config ''message'' (JStr ''An undefined issue was detected'')
                 in case check_body w volume_path cont check_config message_template of
                      Inl e \<Rightarrow> []
                    | Inr None \<Rightarrow> []
                    | Inr (Some message) \<Rightarrow> [message]))
      | _ \<Rightarrow> [])"

fun checks_loop :: "world \<Rightarrow> string \<Rightarrow> container \<Rightarrow> json list \<Rightarrow> string list \<Rightarrow> string list" where
  "checks_loop w volume_path cont [] flags = flags"
| "checks_loop w volume_path cont (c # cs) flags =
     checks_loop w volume_path cont cs (flags @ check_flags w volume_path cont c)"

text \<open>
  \<^verbatim>\<open>execute_strategy\<close> prints \<^verbatim>\<open>strategy['name']\<close> before anything else, which raises when
  the strategy is not a dictionary or has no name.
\<close>

definition execute_strategy :: "world \<Rightarrow> json \<Rightarrow> string \<Rightarrow> container \<Rightarrow> exn + string list" where
  "execute_strategy w strategy volume_path cont =
     (case py_subscript strategy ''name'' of
        Inl e \<Rightarrow> Inl e
      | Inr name \<Rightarrow>
          (case py_get strategy ''checks'' JNull of
             Inl e \<Rightarrow> Inl e
           | Inr (JArr checks) \<Rightarrow> Inr (checks_loop w volume_path cont checks [])
           | Inr other \<Rightarrow> Inr []))"

section \<open>Scan coordinator\<close>

fun strategies_loop :: "world \<Rightarrow> string \<Rightarrow> container \<Rightarrow> json list \<Rightarrow> string list \<Rightarrow> exn + string list" where
  "strategies_loop w volume_path cont [] flags = Inr flags"
| "strategies_loop w volume_path cont (strategy # rest) flags =
     (case execute_strategy w strategy volume_path cont of
        Inl e \<Rightarrow> Inl e
      | Inr strategy_flags \<Rightarrow> strategies_loop w volume_path cont rest (flags @ strategy_flags))"

definition check_volume :: "world \<Rightarrow> string \<Rightarrow> json list \<Rightarrow> exn + string list" where
  "check_volume w uuid strategies =
     (let volume_path = os_path_join (volumes_dir w) uuid in
      if \<not> path_exists w volume_path then Inr []
      else (case containers_get w uuid of
              Inl e \<Rightarrow> Inr []
            | Inr cont \<Rightarrow> strategies_loop w volume_path cont strategies []))"

text \<open>
  \<^verbatim>\<open>get_server_id_from_uuid\<close>: the first server of the panel's list whose
  \<^verbatim>\<open>attributes.uuid\<close> equals the identifier gives its \<^verbatim>\<open>attributes.id\<close>; any exception and
  an exhausted list give \<^verbatim>\<open>None\<close> (\<open>JNull\<close>).
\<close>

fun find_server :: "string \<Rightarrow> json list \<Rightarrow> exn + json" where
  "find_server uuid [] = Inr JNull"
| "find_server uuid (server # rest) =
     (case py_subscript server ''attributes'' of
        Inl e \<Rightarrow> Inl e
      | Inr attributes \<Rightarrow>
          (case py_subscript attributes ''uuid'' of
             Inl e \<Rightarrow> Inl e
           | Inr u \<Rightarrow>
               if u = JStr uuid then py_subscript attributes ''id''
               else find_server uuid rest))"

definition get_server_id_from_uuid :: "world \<Rightarrow> string \<Rightarrow> json" where
  "get_server_id_from_uuid w uuid =
     (case panel_servers w of
        Inl e \<Rightarrow> JNull
      | Inr data \<Rightarrow>
          (case py_get data ''data'' (JArr []) of
             Inl e \<Rightarrow> JNull
           | Inr servers \<Rightarrow>
               (case py_iter servers of
                  Inl e \<Rightarrow> JNull
                | Inr ss \<Rightarrow> (case find_server uuid ss of Inl e \<Rightarrow> JNull | Inr server_id \<Rightarrow> server_id))))"

text \<open>
  The state of the process is the dictionary \<^verbatim>\<open>flagged_containers\<close>. The calls a sweep
  makes to its collaborators are recorded in a trace, each with the identifier it is made
  for: the scan of a volume, the look-up of the server id, the suspension request, the two
  webhook posts, and the dump of the whole dictionary to \<^verbatim>\<open>flagged.json\<close>. The posts and
  the suspension catch their own exceptions and return nothing; an exception of the dump
  is caught by the handler of the loop, after the dictionary was updated and with nothing
  left to do for the identifier, so none of them has an outcome the sweep depends on.
\<close>

datatype event =
  CheckVolume string
  | ResolveServer string
  | Suspend string json
  | PublicAlert string json
  | PrivateAlert string json "string list"
  | DumpFlagged string "(string \<times> json) list"

fun event_uuid :: "event \<Rightarrow> string" where
  "event_uuid (CheckVolume u) = u"
| "event_uuid (ResolveServer u) = u"
| "event_uuid (Suspend u sid) = u"
| "event_uuid (PublicAlert u sid) = u"
| "event_uuid (PrivateAlert u sid flags) = u"
| "event_uuid (DumpFlagged u d) = u"

record state =
  flagged_containers :: "(string \<times> json) list"
  trace :: "event list"

definition emit_event :: "event \<Rightarrow> state \<Rightarrow> state" where
  "emit_event e st = st\<lparr>trace := trace st @ [e]\<rparr>"

definition suspend_server :: "string \<Rightarrow> json \<Rightarrow> state \<Rightarrow> state" where
  "suspend_server uuid server_id st = emit_event (Suspend uuid server_id) st"

definition send_public_alert :: "string \<Rightarrow> json \<Rightarrow> state \<Rightarrow> state" where
  "send_public_alert uuid server_id st = emit_event (PublicAlert uuid server_id) st"

definition send_private_alert :: "string \<Rightarrow> json \<Rightarrow> string list \<Rightarrow> state \<Rightarrow> state" where
  "send_private_alert uuid server_id flags st = emit_event (PrivateAlert uuid server_id flags) st"

text \<open>The steps after a non-empty flag list (the body of \<^verbatim>\<open>if flags:\<close>).\<close>

definition contain :: "world \<Rightarrow> string \<Rightarrow> string list \<Rightarrow> state \<Rightarrow> state" where
  "contain w uuid flags st =
     (let server_id = get_server_id_from_uuid w uuid;
          st1 = emit_event (ResolveServer uuid) st;
          st2 = (if truthy server_id then suspend_server uuid server_id st1 else st1);
          st3 = send_public_alert uuid server_id st2;
          st4 = send_private_alert uuid server_id flags st3;
          st5 = st4\<lparr>flagged_containers := AList.update uuid (JBool True) (flagged_containers st4)\<rparr>
      in emit_event (DumpFlagged uuid (flagged_containers st5)) st5)"

text \<open>One round of the loop of \<^verbatim>\<open>scan_all_containers\<close>.\<close>

definition scan_container :: "world \<Rightarrow> json list \<Rightarrow> state \<Rightarrow> string \<Rightarrow> state" where
  "scan_container w strategies st uuid =
     (if truthy (dict_get (flagged_containers st) uuid) then st
      else (let st1 = emit_event (CheckVolume uuid) st in
            case check_volume w uuid strategies of
              Inl e \<Rightarrow> st1
            | Inr flags \<Rightarrow> if flags = [] then st1 else contain w uuid flags st1))"

fun scan_loop :: "world \<Rightarrow> json list \<Rightarrow> string list \<Rightarrow> state \<Rightarrow> state" where
  "scan_loop w strategies [] st = st"
| "scan_loop w strategies (uuid # rest) st =
     scan_loop w strategies rest (scan_container w strategies st uuid)"

definition scan_all_containers :: "world \<Rightarrow> json list \<Rightarrow> state \<Rightarrow> exn + state" where
  "scan_all_containers w strategies st =
     (case listdir w of
        Inl e \<Rightarrow> Inl e
      | Inr uuids \<Rightarrow> Inr (scan_loop w strategies uuids st))"

section \<open>Strategy loader and main loop\<close>

text \<open>
  \<open>strategy_files\<close> lists the \<^verbatim>\<open>*.protect\<close> files in the order the directory yields them,
  each with what \<^verbatim>\<open>open\<close> and \<^verbatim>\<open>json.load\<close> give for it. An enumeration that raises
  midway is a shorter list: the outer handler only prints.
\<close>

fun load_loop :: "(string \<times> (exn + json)) list \<Rightarrow> json list \<Rightarrow> json list" where
  "load_loop [] strategies = strategies"
| "load_loop (file # rest) strategies =
     (case snd file of
        Inl e \<Rightarrow> load_loop rest strategies
      | Inr strategy \<Rightarrow>
          (case strategy of
             JObj d \<Rightarrow>
               (if \<not> truthy (dict_get d ''name'') then load_loop rest strategies
                else if \<not> truthy (dict_get d ''type'') then load_loop rest strategies
                else (case dict_get d ''checks'' of
                        JArr checks \<Rightarrow> load_loop rest (strategies @ [strategy])
                      | _ \<Rightarrow> load_loop rest strategies))
           | _ \<Rightarrow> load_loop rest strategies))"

definition load_strategies :: "world \<Rightarrow> json list" where
  "load_strategies w = load_loop (strategy_files w) []"

text \<open>
  One round of the loop of \<^verbatim>\<open>main\<close>: a sweep whose exception is caught and printed. The
  loop never ends; \<open>main_rounds\<close> is the state after the rounds whose worlds are listed.
\<close>

definition main_round :: "json list \<Rightarrow> state \<Rightarrow> world \<Rightarrow> state" where
  "main_round strategies st w =
     (case scan_all_containers w strategies st of Inl e \<Rightarrow> st | Inr st' \<Rightarrow> st')"

fun main_rounds :: "json list \<Rightarrow> world list \<Rightarrow> state \<Rightarrow> state" where
  "main_rounds strategies [] st = st"
| "main_rounds strategies (w # ws) st = main_rounds strategies ws (main_round strategies st w)"

section \<open>Vocabulary of the properties\<close>

text \<open>The closed set of check kinds, and the kind a check configuration declares, if any.\<close>

definition known_kinds :: "string list" where
  "known_kinds = [''file_existence'', ''file_content'', ''file_size'', ''dependency'', ''log_content'',
                  ''process_check'', ''network_usage'']"

definition declared_kind :: "json \<Rightarrow> string option" where
  "declared_kind c =
     (case c of
        JObj check_config \<Rightarrow> (case map_of check_config ''type'' of Some (JStr k) \<Rightarrow> Some k | _ \<Rightarrow> None)
      | _ \<Rightarrow> None)"

text \<open>
  An event leaves an identifier alone when it is made for another identifier and, if it
  dumps the flagged dictionary, the dump holds the given value for the identifier. A state
  \<open>st'\<close> keeps an identifier when the identifier's entry is the one of \<open>st\<close> and the
  trace of \<open>st'\<close> extends the trace of \<open>st\<close> by events that leave it alone.
\<close>

fun untouched_by :: "string \<Rightarrow> json \<Rightarrow> event \<Rightarrow> bool" where
  "untouched_by uuid v (DumpFlagged u d) = (u \<noteq> uuid \<and> dict_get d uuid = v)"
| "untouched_by uuid v e = (event_uuid e \<noteq> uuid)"

definition keeps :: "string \<Rightarrow> state \<Rightarrow> state \<Rightarrow> bool" where
  "keeps uuid st st' =
     (dict_get (flagged_containers st') uuid = dict_get (flagged_containers st) uuid
      \<and> (\<exists>new. trace st' = trace st @ new
                 \<and> list_all (untouched_by uuid (dict_get (flagged_containers st) uuid)) new))"

text \<open>The received and the transmitted bytes of all interfaces of a statistics report.\<close>

definition received :: "container_stats \<Rightarrow> int" where
  "received s =
     sum_list (map (\<lambda>entry. case rx_bytes (snd entry) of None \<Rightarrow> 0 | Some r \<Rightarrow> r)
                   (case networks s of None \<Rightarrow> [] | Some nets \<Rightarrow> nets))"

definition transmitted :: "container_stats \<Rightarrow> int" where
  "transmitted s =
     sum_list (map (\<lambda>entry. case tx_bytes (snd entry) of None \<Rightarrow> 0 | Some t \<Rightarrow> t)
                   (case networks s of None \<Rightarrow> [] | Some nets \<Rightarrow> nets))"

text \<open>
  A line of a process table is hot for a limit when, split on whitespace, it has more than
  eight columns and column 8 parses as a number greater than the limit. The specification
  takes the lines of the output as they are printed.
\<close>

definition hot_line :: "(string \<Rightarrow> pyfloat option) \<Rightarrow> pyfloat \<Rightarrow> string \<Rightarrow> bool" where
  "hot_line pf limit line =
     (length (py_split line) > 8
      \<and> (case pf (py_split line ! 8) of None \<Rightarrow> False | Some cpu \<Rightarrow> fl_less limit cpu))"

definition spec_matching_lines :: "(string \<Rightarrow> pyfloat option) \<Rightarrow> pyfloat \<Rightarrow> string \<Rightarrow> string list" where
  "spec_matching_lines pf limit output = filter (hot_line pf limit) (py_split_lines output)"



text \<open>
  A rule as the specification words it (a name, a type and a sequence of checks are
  present), and a file content the loader accepts (read and parsed, a dictionary, a truthy
  name, a truthy type, a list of checks).
\<close>

definition spec_well_formed :: "json \<Rightarrow> bool" where
  "spec_well_formed j =
     (case j of
        JObj d \<Rightarrow>
          map_of d ''name'' \<noteq> None \<and> map_of d ''type'' \<noteq> None
          \<and> (case map_of d ''checks'' of Some (JArr checks) \<Rightarrow> True | _ \<Rightarrow> False)
      | _ \<Rightarrow> False)"

definition loadable :: "exn + json \<Rightarrow> bool" where
  "loadable content =
     (case content of
        Inr (JObj d) \<Rightarrow>
          truthy (dict_get d ''name'') \<and> truthy (dict_get d ''type'')
          \<and> (case dict_get d ''checks'' of JArr checks \<Rightarrow> True | _ \<Rightarrow> False)
      | _ \<Rightarrow> False)"

text \<open>
  A template written as a sequence of pieces: a literal character (a brace is written
  doubled) or a placeholder \<^verbatim>\<open>{name}\<close>; and what each piece stands for once the evidence
  is substituted, an absent field giving the empty string and an absent \<^verbatim>\<open>usage\<close> zero.
\<close>

datatype piece = Lit char | Placeholder string

definition placeholder_names :: "string list" where
  "placeholder_names = [''pattern'', ''filename'', ''dependency'', ''usage'', ''processes'']"

fun piece_text :: "piece \<Rightarrow> string" where
  "piece_text (Lit c) = (if c = CHR 0x7B \<or> c = CHR 0x7D then [c, c] else [c])"
| "piece_text (Placeholder n) = CHR 0x7B # n @ [CHR 0x7D]"

definition template_of :: "piece list \<Rightarrow> string" where
  "template_of ps = concat (map piece_text ps)"

fun substituted :: "evidence \<Rightarrow> piece \<Rightarrow> string" where
  "substituted data (Lit c) = [c]"
| "substituted data (Placeholder n) =
     (if n = ''pattern'' then (case pattern data of None \<Rightarrow> [] | Some p \<Rightarrow> p)
      else if n = ''filename'' then (case filename data of None \<Rightarrow> [] | Some f \<Rightarrow> f)
      else if n = ''dependency'' then (case dependency data of None \<Rightarrow> [] | Some d \<Rightarrow> d)
      else if n = ''usage'' then usage_text (case usage data of None \<Rightarrow> 0 | Some u \<Rightarrow> u)
      else if n = ''processes'' then join_comma (case processes data of None \<Rightarrow> [] | Some ps \<Rightarrow> ps)
      else [])"

definition known_piece :: "piece \<Rightarrow> bool" where
  "known_piece p = (case p of Lit c \<Rightarrow> True | Placeholder n \<Rightarrow> n \<in> set placeholder_names)"

section \<open>Example data\<close>

text \<open>
  A small fleet used to run the definitions: one volume \<^verbatim>\<open>c1\<close> with a running container,
  a \<^verbatim>\<open>package.json\<close>, an executable and a large file; one volume \<^verbatim>\<open>c2\<close> without a
  container; a panel that knows neither. \<^verbatim>\<open>float\<close> is given on the strings that stand in
  column 8 of the process table. The last row of the table separates its state column from
  its CPU column by a no-break space and ends with one.
\<close>

definition demo_relay_row :: string where
  "demo_relay_row = ''  104 app 20 0 9000 800 700 R'' @ [CHR 0xA0] @ ''95.5 0.3 0:09 relay'' @ [CHR 0xA0]"

definition demo_top_output :: string where
  "demo_top_output =
     ''  PID USER PR NI VIRT RES SHR S %CPU %MEM TIME COMMAND'' @ [CHR 0x0A]
     @ ''  101 app 20 0 9000 800 700 R 99.0 1.2 0:42 xmrig'' @ [CHR 0x0A]
     @ ''  102 app 20 0 9000 800 700 S 1.5 0.3 0:01 node'' @ [CHR 0x0A]
     @ ''  103 app 20 0 9000 800 700 R 250.5 0.3 0:07 hashd  '' @ [CHR 0x0A]
     @ demo_relay_row @ [CHR 0x0A]
     @ ''Tasks: 4 total'' @ [CHR 0x0A]"

definition demo_float :: "string \<Rightarrow> pyfloat option" where
  "demo_float s =
     (if s = ''99.0'' then Some (Fin 99)
      else if s = ''1.5'' then Some (Fin (3 / 2))
      else if s = ''250.5'' then Some (Fin (501 / 2))
      else if s = ''95.5'' then Some (Fin (191 / 2))
      else None)"

definition demo_container :: container where
  "demo_container =
     \<lparr>logs_tail = Inr ''Server started; Stratum MINER connected'',
      exec_run = (\<lambda>cmd. if cmd = JStr ''top -b -n 1'' then Inr demo_top_output else Inl DockerError),
      stats = Inr \<lparr>networks = Some [(''eth0'', \<lparr>rx_bytes = Some 400000, tx_bytes = Some 500000\<rparr>),
                                   (''eth1'', \<lparr>rx_bytes = Some 200000, tx_bytes = None\<rparr>)]\<rparr>\<rparr>"

definition demo_package :: json where
  "demo_package =
     JObj [(''name'', JStr ''app''),
           (''dependencies'', JObj [(''express'', JStr ''4.18.2''), (''malicious-lib-v2'', JStr ''1.0.0'')]),
           (''devDependencies'', JObj [(''Jest-Miner'', JStr ''29.0.0'')])]"

definition demo_clean_package :: json where
  "demo_clean_package =
     JObj [(''name'', JStr ''site''), (''dependencies'', JObj [(''express'', JStr ''4.18.2'')])]"

definition demo_size_check :: json where
  "demo_size_check =
     JObj [(''type'', JStr ''file_size''), (''path'', JStr ''big.bin''), (''max_size'', JStr ''1 MB''),
           (''message'', JStr ''Large file {filename}'')]"

definition demo_unknown_check :: json where
  "demo_unknown_check = JObj [(''type'', JStr ''port_scan''), (''message'', JStr ''Port scan'')]"

definition demo_dependency_check :: json where
  "demo_dependency_check =
     JObj [(''type'', JStr ''dependency''), (''patterns'', JArr [JStr ''malicious-lib'']),
           (''message'', JStr ''Dependency {dependency} is banned'')]"

definition demo_rule :: json where
  "demo_rule =
     JObj [(''name'', JStr ''miners''), (''type'', JStr ''abuse''),
           (''checks'', JArr [demo_size_check, demo_unknown_check, demo_dependency_check])]"

definition demo_world :: world where
  "demo_world =
     \<lparr>volumes_dir = ''/volumes'',
      listdir = Inr [''c1'', ''c2''],
      path_exists = (\<lambda>p. p = ''/volumes/c1'' \<or> p = ''/volumes/c2'' \<or> p = ''/volumes/c1/package.json''
                         \<or> p = ''/volumes/c1/big.bin'' \<or> p = ''/volumes/c2/package.json''),
      glob_glob = (\<lambda>p. if p = ''/volumes/c1/*.exe'' then [''/volumes/c1/miner.exe''] else []),
      read_text = (\<lambda>p. Inl OSError),
      getsize = (\<lambda>p. if p = ''/volumes/c1/big.bin'' then Inr 2048 else Inl OSError),
      load_json = (\<lambda>p. if p = ''/volumes/c1/package.json'' then Inr demo_package
                       else if p = ''/volumes/c2/package.json'' then Inr demo_clean_package
                       else Inl OSError),
      containers_get = (\<lambda>u. if u = ''c1'' then Inr demo_container else Inl NotFound),
      panel_servers = Inr (JObj [(''data'', JArr [])]),
      strategy_files =
        [(''miners.protect'', Inr demo_rule),
         (''broken.protect'', Inl ValueError),
         (''nameless.protect'', Inr (JObj [(''name'', JStr []), (''type'', JStr ''abuse''), (''checks'', JArr [])])),
         (''nochecks.protect'', Inr (JObj [(''name'', JStr ''x''), (''type'', JStr ''abuse'')]))],
      py_float = demo_float,
      py_format_rest = (\<lambda>t kw. Inl ValueError)\<rparr>"

definition demo_state :: state where
  "demo_state = \<lparr>flagged_containers = [(''c0'', JBool True)], trace = []\<rparr>"

definition demo_process_config :: "(string \<times> json) list" where
  "demo_process_config =
     [(''type'', JStr ''process_check''), (''command'', JStr ''top -b -n 1''),
      (''cpu_threshold'', JFloat (Fin 80)), (''message'', JStr ''Busy: {processes}'')]"

definition demo_network_config :: "(string \<times> json) list" where
  "demo_network_config =
     [(''type'', JStr ''network_usage''), (''threshold'', JInt 1000000),
      (''message'', JStr ''Traffic {usage} MB'')]"

definition nameless_world :: world where
  "nameless_world =
     demo_world\<lparr>strategy_files :=
       [(''nameless.protect'',
         Inr (JObj [(''name'', JStr []), (''type'', JStr ''abuse''), (''checks'', JArr [])]))]\<rparr>"

definition demo_flagged_state :: state where
  "demo_flagged_state = \<lparr>flagged_containers = [(''c1'', JBool True)], trace = []\<rparr>"

section \<open>The executor contains failures\<close>

lemma checks_loop_append:
  "checks_loop w vol cont cs flags = flags @ concat (map (check_flags w vol cont) cs)"
  by (induction cs arbitrary: flags) simp_all

lemma execute_strategy_checks:
  assumes "py_subscript strategy ''name'' = Inr name"
      and "py_get strategy ''checks'' JNull = Inr (JArr cs)"
  shows "execute_strategy w strategy vol cont = Inr (concat (map (check_flags w vol cont) cs))"
  using assms by (simp add: execute_strategy_def checks_loop_append)

lemma execute_strategy_total:
  assumes "py_subscript strategy ''name'' = Inr name"
  shows "\<exists>flags. execute_strategy w strategy vol cont = Inr flags"
proof (cases strategy)
  case (JObj d)
  then show ?thesis using assms
    by (auto simp: execute_strategy_def split: sum.splits json.splits)
qed (use assms in simp_all)

lemma unknown_kind_no_flag:
  assumes "declared_kind c \<notin> Some ` set known_kinds"
  shows "check_flags w vol cont c = []"
proof (cases c)
  case (JObj cfg)
  have "dict_get cfg ''type'' \<noteq> JStr k" if "k \<in> set known_kinds" for k
    using assms that JObj by (auto simp: declared_kind_def dict_get_def split: option.splits json.splits)
  then have "check_body w vol cont cfg t = Inr None" for t
    by (simp add: check_body_def known_kinds_def Let_def)
  then show ?thesis using JObj by (simp add: check_flags_def Let_def)
qed (simp_all add: check_flags_def)

lemma process_loop_bad_threshold:
  assumes "as_number thr = None"
  shows "process_loop pf thr ls acc = Inl TypeError \<or> process_loop pf thr ls acc = Inr acc"
  using assms
  by (induction ls arbitrary: acc) (auto simp: Let_def py_gt_def split: option.splits)

lemma process_check_bad_threshold:
  assumes "as_number (dict_get_default cfg ''cpu_threshold'' (JInt 0)) = None"
  shows "process_check w cont cfg = Inr None"
proof (cases "exec_run cont (dict_get cfg ''command'')")
  case (Inl e)
  then show ?thesis by (simp add: process_check_def Let_def)
next
  case (Inr out)
  from process_loop_bad_threshold [OF assms, of "py_float w" "py_split_lines (py_strip out)" "[]"]
  show ?thesis using Inr by (auto simp: process_check_def Let_def)
qed

lemma demo_size_check_raises:
  "check_body demo_world ''/volumes/c1'' demo_container
     [(''type'', JStr ''file_size''), (''path'', JStr ''big.bin''), (''max_size'', JStr ''1 MB''),
      (''message'', JStr ''Large file {filename}'')]
     (JStr ''Large file {filename}'') = Inl TypeError"
  by (simp add: check_body_def file_check_def file_size_check_def dict_get_def dict_get_default_def
      os_path_join_def demo_world_def py_gt_def Let_def)

lemma demo_dependency_flag:
  "check_flags demo_world ''/volumes/c1'' demo_container demo_dependency_check
     = [''Dependency malicious-lib-v2 is banned'']"
  by (simp add: check_flags_def check_body_def demo_dependency_check_def dict_get_def dict_get_default_def
      dependency_check_def dependency_scan_def merged_dependency_keys_def demo_world_def demo_package_def
      os_path_join_def py_lower_def lower_char_def upper_case_def lower_case_def
      replace_placeholders_def no_evidence_def
      format_usage_def round53_def emit_def is_digit_def is_special_def Let_def)

text \<open>
  C9. A check configuration whose kind is not one of the seven known kinds, or that
  declares no kind at all (no \<^verbatim>\<open>type\<close> entry, a \<^verbatim>\<open>type\<close> that is not a string, or a
  configuration that is not a dictionary), appends no flag, and the run returns the flags of
  the checks before it followed by the flags of the checks after it.
\<close>

theorem unknown_kind_is_skipped:
  assumes "py_subscript strategy ''name'' = Inr name"
      and "py_get strategy ''checks'' JNull = Inr (JArr (before @ c # after))"
      and "declared_kind c \<notin> Some ` set known_kinds"
  shows "check_flags w vol cont c = []
       \<and> execute_strategy w strategy vol cont
           = Inr (checks_loop w vol cont before [] @ checks_loop w vol cont after [])"
  using assms by (simp add: execute_strategy_checks checks_loop_append unknown_kind_no_flag)

theorem unknown_kind_is_skipped_witness:
  "declared_kind demo_unknown_check = Some ''port_scan''
   \<and> declared_kind (JObj [(''message'', JStr ''no kind'')]) = None
   \<and> check_flags demo_world ''/volumes/c1'' demo_container demo_unknown_check = []
   \<and> execute_strategy demo_world demo_rule ''/volumes/c1'' demo_container
       = Inr (checks_loop demo_world ''/volumes/c1'' demo_container [demo_size_check] []
              @ [''Dependency malicious-lib-v2 is banned''])"
proof -
  have name: "py_subscript demo_rule ''name'' = Inr (JStr ''miners'')"
    by (simp add: demo_rule_def)
  have checks: "py_get demo_rule ''checks'' JNull
      = Inr (JArr ([demo_size_check] @ demo_unknown_check # [demo_dependency_check]))"
    by (simp add: demo_rule_def dict_get_default_def)
  have kind: "declared_kind demo_unknown_check \<notin> Some ` set known_kinds"
    by (simp add: declared_kind_def demo_unknown_check_def known_kinds_def)
  from unknown_kind_is_skipped [OF name checks kind, of demo_world "''/volumes/c1''" demo_container]
  show ?thesis
    using demo_dependency_flag
    by (simp add: declared_kind_def demo_unknown_check_def)
qed

section \<open>Flagged identifiers\<close>

lemma dict_get_update_other:
  "u \<noteq> uuid \<Longrightarrow> dict_get (AList.update u v d) uuid = dict_get d uuid"
  by (simp add: dict_get_def update_conv')

lemma dict_get_update_same:
  "dict_get (AList.update uuid v d) uuid = v"
  by (simp add: dict_get_def update_conv')

lemma keeps_refl: "keeps uuid st st"
  by (simp add: keeps_def)

lemma keeps_trans:
  assumes "keeps uuid st st'" and "keeps uuid st' st''"
  shows "keeps uuid st st''"
proof -
  from assms(1) obtain n1 where
    v1: "dict_get (flagged_containers st') uuid = dict_get (flagged_containers st) uuid"
    and t1: "trace st' = trace st @ n1"
    and a1: "list_all (untouched_by uuid (dict_get (flagged_containers st) uuid)) n1"
    by (auto simp: keeps_def)
  from assms(2) v1 obtain n2 where
    v2: "dict_get (flagged_containers st'') uuid = dict_get (flagged_containers st) uuid"
    and t2: "trace st'' = trace st' @ n2"
    and a2: "list_all (untouched_by uuid (dict_get (flagged_containers st) uuid)) n2"
    by (auto simp: keeps_def)
  from t1 t2 have "trace st'' = trace st @ (n1 @ n2)" by simp
  moreover from a1 a2 have "list_all (untouched_by uuid (dict_get (flagged_containers st) uuid)) (n1 @ n2)"
    by simp
  ultimately show ?thesis using v2 unfolding keeps_def by blast
qed

lemma scan_container_skips:
  "truthy (dict_get (flagged_containers st) uuid) \<Longrightarrow> scan_container w strategies st uuid = st"
  by (simp add: scan_container_def)

lemma contain_other:
  assumes "u \<noteq> uuid"
  shows "keeps uuid st (contain w u flags st)"
  using assms
  by (simp add: keeps_def contain_def emit_event_def suspend_server_def send_public_alert_def
      send_private_alert_def dict_get_update_other Let_def)

lemma check_volume_event_other:
  assumes "u \<noteq> uuid"
  shows "keeps uuid st (emit_event (CheckVolume u) st)"
  using assms by (simp add: keeps_def emit_event_def)

lemma scan_container_other:
  assumes "u \<noteq> uuid"
  shows "keeps uuid st (scan_container w strategies st u)"
proof -
  have first: "keeps uuid st (emit_event (CheckVolume u) st)"
    using assms by (rule check_volume_event_other)
  have rest: "keeps uuid (emit_event (CheckVolume u) st) (contain w u flags (emit_event (CheckVolume u) st))" for flags
    using assms by (rule contain_other)
  show ?thesis
    using first keeps_trans [OF first rest]
    by (auto simp: scan_container_def keeps_refl Let_def split: sum.splits)
qed

lemma scan_container_flagged:
  assumes "truthy (dict_get (flagged_containers st) uuid)"
  shows "keeps uuid st (scan_container w strategies st u)"
proof (cases "u = uuid")
  case True
  then show ?thesis using assms by (simp add: scan_container_skips keeps_refl)
next
  case False
  then show ?thesis by (rule scan_container_other)
qed

lemma keeps_value:
  "keeps uuid st st' \<Longrightarrow> dict_get (flagged_containers st') uuid = dict_get (flagged_containers st) uuid"
  by (simp add: keeps_def)

lemma scan_loop_flagged:
  assumes "truthy (dict_get (flagged_containers st) uuid)"
  shows "keeps uuid st (scan_loop w strategies us st)"
  using assms
proof (induction us arbitrary: st)
  case Nil
  then show ?case by (simp add: keeps_refl)
next
  case (Cons u us)
  have step: "keeps uuid st (scan_container w strategies st u)"
    using Cons.prems by (rule scan_container_flagged)
  then have "truthy (dict_get (flagged_containers (scan_container w strategies st u)) uuid)"
    using Cons.prems by (simp add: keeps_value)
  then have "keeps uuid (scan_container w strategies st u)
               (scan_loop w strategies us (scan_container w strategies st u))"
    by (rule Cons.IH)
  with step show ?case by (simp add: keeps_trans)
qed

lemma scan_loop_others:
  assumes "uuid \<notin> set us"
  shows "keeps uuid st (scan_loop w strategies us st)"
  using assms
proof (induction us arbitrary: st)
  case Nil
  then show ?case by (simp add: keeps_refl)
next
  case (Cons u us)
  then have "keeps uuid st (scan_container w strategies st u)"
    by (intro scan_container_other) auto
  moreover have "keeps uuid (scan_container w strategies st u)
               (scan_loop w strategies us (scan_container w strategies st u))"
    using Cons by simp
  ultimately show ?case by (simp add: keeps_trans)
qed

lemma scan_loop_append:
  "scan_loop w strategies (xs @ ys) st = scan_loop w strategies ys (scan_loop w strategies xs st)"
  by (induction xs arbitrary: st) simp_all

lemma main_round_flagged:
  assumes "truthy (dict_get (flagged_containers st) uuid)"
  shows "keeps uuid st (main_round strategies st w)"
  using scan_loop_flagged [OF assms]
  by (simp add: main_round_def scan_all_containers_def keeps_refl split: sum.splits)

lemma main_rounds_flagged:
  assumes "truthy (dict_get (flagged_containers st) uuid)"
  shows "keeps uuid st (main_rounds strategies ws st)"
  using assms
proof (induction ws arbitrary: st)
  case Nil
  then show ?case by (simp add: keeps_refl)
next
  case (Cons w ws)
  have step: "keeps uuid st (main_round strategies st w)"
    using Cons.prems by (rule main_round_flagged)
  then have "truthy (dict_get (flagged_containers (main_round strategies st w)) uuid)"
    using Cons.prems by (simp add: keeps_value)
  then have "keeps uuid (main_round strategies st w) (main_rounds strategies ws (main_round strategies st w))"
    by (rule Cons.IH)
  with step show ?case by (simp add: keeps_trans)
qed

text \<open>
  C1. An identifier whose entry in \<^verbatim>\<open>flagged_containers\<close> is truthy (in particular
  \<^verbatim>\<open>true\<close>) when a sweep starts is skipped by that sweep and by every later one, whatever
  the worlds of the sweeps are: the sweeps add to the trace only events made for other
  identifiers (no scan of its volume, no look-up, no suspension, no notification, no dump
  on its behalf), every dump of the dictionary still holds its entry, and its entry is
  unchanged at the end.
\<close>

theorem flagged_identifier_is_never_rescanned:
  assumes "truthy (dict_get (flagged_containers st) uuid)"
  shows "dict_get (flagged_containers (main_rounds strategies ws st)) uuid
           = dict_get (flagged_containers st) uuid
       \<and> (\<exists>new. trace (main_rounds strategies ws st) = trace st @ new
                \<and> list_all (untouched_by uuid (dict_get (flagged_containers st) uuid)) new
                \<and> filter (\<lambda>e. event_uuid e = uuid) new = [])
       \<and> scan_container w strategies st uuid = st"
proof -
  from main_rounds_flagged [OF assms, of strategies ws] obtain new where
    v: "dict_get (flagged_containers (main_rounds strategies ws st)) uuid
           = dict_get (flagged_containers st) uuid"
    and t: "trace (main_rounds strategies ws st) = trace st @ new"
    and a: "list_all (untouched_by uuid (dict_get (flagged_containers st) uuid)) new"
    by (auto simp: keeps_def)
  have "event_uuid e \<noteq> uuid" if "untouched_by uuid x e" for x e
    using that by (cases e) simp_all
  with a have "filter (\<lambda>e. event_uuid e = uuid) new = []"
    by (auto simp: list_all_iff filter_empty_conv)
  with v t a show ?thesis
    using scan_container_skips [OF assms] by blast
qed
theorem flagged_identifier_is_never_rescanned_witness:
  "truthy (dict_get (flagged_containers demo_flagged_state) ''c1'')
   \<and> main_rounds [demo_rule] [demo_world, demo_world] demo_flagged_state
       = \<lparr>flagged_containers = [(''c1'', JBool True)], trace = [CheckVolume ''c2'', CheckVolume ''c2'']\<rparr>
   \<and> scan_container demo_world [demo_rule] demo_flagged_state ''c1'' = demo_flagged_state"
proof -
  have flagged: "truthy (dict_get (flagged_containers demo_flagged_state) ''c1'')"
    by (simp add: demo_flagged_state_def dict_get_def)
  have c2: "check_volume demo_world ''c2'' [demo_rule] = Inr []"
    by (simp add: check_volume_def demo_world_def os_path_join_def)
  have "main_rounds [demo_rule] [demo_world, demo_world] demo_flagged_state
       = \<lparr>flagged_containers = [(''c1'', JBool True)], trace = [CheckVolume ''c2'', CheckVolume ''c2'']\<rparr>"
    using c2
    by (simp add: main_round_def scan_all_containers_def scan_container_def emit_event_def
        demo_flagged_state_def dict_get_def demo_world_def)
  with flagged show ?thesis
    using flagged_identifier_is_never_rescanned
            [OF flagged, of "[demo_rule]" "[demo_world, demo_world]" demo_world]
    by simp
qed

text \<open>
  C2. In a sweep, an identifier that is listed, is not flagged when the sweep starts, and
  whose scan gives a non-empty flag list is marked even when its server id cannot be
  resolved (\<^verbatim>\<open>get_server_id_from_uuid\<close> returns \<^verbatim>\<open>None\<close>): the events of the sweep made
  for it are exactly the scan, the look-up, the summary alert, the detailed alert with the
  flags, and the dump of the dictionary to \<^verbatim>\<open>flagged.json\<close> with its entry \<^verbatim>\<open>true\<close>; there
  is no suspension request; and its entry is \<^verbatim>\<open>true\<close> when the sweep ends.
\<close>

theorem unresolved_detection_is_still_marked:
  assumes "listdir w = Inr uuids" and "uuid \<in> set uuids"
      and "\<not> truthy (dict_get (flagged_containers st) uuid)"
      and "check_volume w uuid strategies = Inr flags" and "flags \<noteq> []"
      and "get_server_id_from_uuid w uuid = JNull"
  shows "\<exists>st' new d.
           scan_all_containers w strategies st = Inr st'
         \<and> dict_get (flagged_containers st') uuid = JBool True
         \<and> trace st' = trace st @ new
         \<and> filter (\<lambda>e. event_uuid e = uuid) new
             = [CheckVolume uuid, ResolveServer uuid, PublicAlert uuid JNull,
                PrivateAlert uuid JNull flags, DumpFlagged uuid d]
         \<and> dict_get d uuid = JBool True"
proof -
  from assms(2) obtain pre post where split: "uuids = pre @ uuid # post" and fresh: "uuid \<notin> set pre"
    by (auto dest: split_list_first)
  define st1 where "st1 = scan_loop w strategies pre st"
  define st2 where "st2 = scan_container w strategies st1 uuid"
  define st3 where "st3 = scan_loop w strategies post st2"
  define d where "d = AList.update uuid (JBool True) (flagged_containers st1)"
  have untouched_filter: "filter (\<lambda>e. event_uuid e = uuid) n = []"
    if "list_all (untouched_by uuid x) n" for x n
  proof -
    have "event_uuid e \<noteq> uuid" if "untouched_by uuid x e" for e
      using that by (cases e) simp_all
    with \<open>list_all (untouched_by uuid x) n\<close> show ?thesis
      by (auto simp: list_all_iff filter_empty_conv)
  qed
  from scan_loop_others [OF fresh, of st w strategies] obtain n1 where
    v1: "dict_get (flagged_containers st1) uuid = dict_get (flagged_containers st) uuid"
    and t1: "trace st1 = trace st @ n1"
    and a1: "list_all (untouched_by uuid (dict_get (flagged_containers st) uuid)) n1"
    by (auto simp: keeps_def st1_def)
  from v1 assms(3) have unflagged: "\<not> truthy (dict_get (flagged_containers st1) uuid)" by simp
  have st2_eq: "st2 = st1\<lparr>flagged_containers := d,
                          trace := trace st1 @ [CheckVolume uuid, ResolveServer uuid, PublicAlert uuid JNull,
                                                PrivateAlert uuid JNull flags, DumpFlagged uuid d]\<rparr>"
    using unflagged assms(4,5,6)
    by (simp add: st2_def d_def scan_container_def contain_def emit_event_def send_public_alert_def
        send_private_alert_def Let_def)
  have v2: "dict_get (flagged_containers st2) uuid = JBool True"
    by (simp add: st2_eq d_def dict_get_update_same)
  then have "truthy (dict_get (flagged_containers st2) uuid)" by simp
  from scan_loop_flagged [OF this, of w strategies post] v2 obtain n3 where
    v3: "dict_get (flagged_containers st3) uuid = JBool True"
    and t3: "trace st3 = trace st2 @ n3"
    and a3: "list_all (untouched_by uuid (JBool True)) n3"
    by (auto simp: keeps_def st3_def)
  have result: "scan_all_containers w strategies st = Inr st3"
    by (simp add: scan_all_containers_def assms(1) split scan_loop_append st1_def st2_def st3_def)
  have trace: "trace st3 = trace st @ (n1 @ [CheckVolume uuid, ResolveServer uuid, PublicAlert uuid JNull,
                                              PrivateAlert uuid JNull flags, DumpFlagged uuid d] @ n3)"
    by (simp add: t3 st2_eq t1)
  have "filter (\<lambda>e. event_uuid e = uuid)
          (n1 @ [CheckVolume uuid, ResolveServer uuid, PublicAlert uuid JNull,
                 PrivateAlert uuid JNull flags, DumpFlagged uuid d] @ n3)
        = [CheckVolume uuid, ResolveServer uuid, PublicAlert uuid JNull,
           PrivateAlert uuid JNull flags, DumpFlagged uuid d]"
    using untouched_filter [OF a1] untouched_filter [OF a3] by simp
  moreover have "dict_get d uuid = JBool True"
    by (simp add: d_def dict_get_update_same)
  ultimately show ?thesis using result v3 trace by blast
qed

theorem unresolved_detection_is_still_marked_witness:
  "listdir demo_world = Inr [''c1'', ''c2'']
   \<and> \<not> truthy (dict_get (flagged_containers demo_state) ''c1'')
   \<and> check_volume demo_world ''c1'' [demo_rule] = Inr [''Dependency malicious-lib-v2 is banned'']
   \<and> get_server_id_from_uuid demo_world ''c1'' = JNull
   \<and> scan_all_containers demo_world [demo_rule] demo_state
       = Inr \<lparr>flagged_containers = [(''c0'', JBool True), (''c1'', JBool True)],
              trace = [CheckVolume ''c1'', ResolveServer ''c1'', PublicAlert ''c1'' JNull,
                       PrivateAlert ''c1'' JNull [''Dependency malicious-lib-v2 is banned''],
                       DumpFlagged ''c1'' [(''c0'', JBool True), (''c1'', JBool True)],
                       CheckVolume ''c2'']\<rparr>"
proof -
  have l: "listdir demo_world = Inr [''c1'', ''c2'']"
    by (simp add: demo_world_def)
  have u: "\<not> truthy (dict_get (flagged_containers demo_state) ''c1'')"
    by (simp add: demo_state_def dict_get_def)
  have size_none: "check_flags demo_world ''/volumes/c1'' demo_container demo_size_check = []"
    using demo_size_check_raises
    by (simp add: check_flags_def demo_size_check_def dict_get_def dict_get_default_def)
  have unknown: "check_flags demo_world ''/volumes/c1'' demo_container demo_unknown_check = []"
    by (rule unknown_kind_no_flag) (simp add: declared_kind_def demo_unknown_check_def known_kinds_def)
  have run: "execute_strategy demo_world demo_rule ''/volumes/c1'' demo_container
               = Inr [''Dependency malicious-lib-v2 is banned'']"
    using size_none unknown demo_dependency_flag
    by (simp add: execute_strategy_def demo_rule_def dict_get_default_def)
  have get: "containers_get demo_world ''c1'' = Inr demo_container" "volumes_dir demo_world = ''/volumes''"
    "path_exists demo_world ''/volumes/c1''"
    by (simp_all add: demo_world_def)
  have c1: "check_volume demo_world ''c1'' [demo_rule] = Inr [''Dependency malicious-lib-v2 is banned'']"
    using run get by (simp add: check_volume_def os_path_join_def)
  have c2: "check_volume demo_world ''c2'' [demo_rule] = Inr []"
    by (simp add: check_volume_def demo_world_def os_path_join_def)
  have r: "get_server_id_from_uuid demo_world ''c1'' = JNull"
    by (simp add: get_server_id_from_uuid_def demo_world_def dict_get_default_def)
  have "scan_all_containers demo_world [demo_rule] demo_state
       = Inr \<lparr>flagged_containers = [(''c0'', JBool True), (''c1'', JBool True)],
              trace = [CheckVolume ''c1'', ResolveServer ''c1'', PublicAlert ''c1'' JNull,
                       PrivateAlert ''c1'' JNull [''Dependency malicious-lib-v2 is banned''],
                       DumpFlagged ''c1'' [(''c0'', JBool True), (''c1'', JBool True)],
                       CheckVolume ''c2'']\<rparr>"
    using c1 c2 r l
    by (simp add: scan_all_containers_def scan_container_def contain_def emit_event_def
        send_public_alert_def send_private_alert_def demo_state_def dict_get_def Let_def)
  with l u c1 r show ?thesis
    using unresolved_detection_is_still_marked [OF l _ u c1 _ r]
    by simp
qed

section \<open>Processes\<close>

lemma split_ws_leading:
  "split_ws [] (dropWhile is_space s) = split_ws [] s"
  by (induction s) simp_all

lemma split_ws_spaces:
  "list_all is_space b \<Longrightarrow> split_ws cur b = (if cur = [] then [] else [cur])"
  by (induction b arbitrary: cur) simp_all

lemma split_ws_trailing:
  "list_all is_space b \<Longrightarrow> split_ws cur (a @ b) = split_ws cur a"
  by (induction a arbitrary: cur) (simp_all add: split_ws_spaces)

lemma rev_dropWhile_trailing:
  "\<exists>b. list_all P b \<and> s = rev (dropWhile P (rev s)) @ b"
proof -
  have "rev s = takeWhile P (rev s) @ dropWhile P (rev s)" by simp
  then have "s = rev (dropWhile P (rev s)) @ rev (takeWhile P (rev s))"
    by (metis rev_append rev_rev_ident)
  moreover have "list_all P (rev (takeWhile P (rev s)))"
    by (auto simp: list_all_iff dest: set_takeWhileD)
  ultimately show ?thesis by blast
qed

lemma py_split_strip: "py_split (py_strip s) = py_split s"
proof -
  obtain b where b: "list_all is_space b"
    and s: "dropWhile is_space s = rev (dropWhile is_space (rev (dropWhile is_space s))) @ b"
    using rev_dropWhile_trailing [of is_space "dropWhile is_space s"] by blast
  have "py_split (py_strip s) = split_ws [] (rev (dropWhile is_space (rev (dropWhile is_space s))) @ b)"
    using b by (simp add: py_split_def py_strip_def split_ws_trailing)
  also have "\<dots> = split_ws [] (dropWhile is_space s)" using s by simp
  also have "\<dots> = py_split s" by (simp add: py_split_def split_ws_leading)
  finally show ?thesis .
qed

lemma process_loop_numeric:
  assumes "as_number thr = Some limit"
  shows "process_loop pf thr ls acc = Inr (acc @ map py_strip (filter (hot_line pf limit) ls))"
  using assms
  by (induction ls arbitrary: acc)
     (auto simp: Let_def py_gt_def hot_line_def py_split_strip split: option.splits)

lemma process_check_numeric:
  assumes "exec_run cont (dict_get cfg ''command'') = Inr output"
      and "as_number (dict_get_default cfg ''cpu_threshold'' (JInt 0)) = Some limit"
  shows "process_check w cont cfg =
           (if filter (hot_line (py_float w) limit) (py_split_lines (py_strip output)) = [] then Inr None
            else Inr (Some (no_evidence\<lparr>processes :=
                   Some (map py_strip (filter (hot_line (py_float w) limit) (py_split_lines (py_strip output))))\<rparr>)))"
  using assms by (simp add: process_check_def Let_def process_loop_numeric)
lemma demo_lines:
  "py_split_lines (py_strip demo_top_output) =
     [''PID USER PR NI VIRT RES SHR S %CPU %MEM TIME COMMAND'',
      ''  101 app 20 0 9000 800 700 R 99.0 1.2 0:42 xmrig'',
      ''  102 app 20 0 9000 800 700 S 1.5 0.3 0:01 node'',
      ''  103 app 20 0 9000 800 700 R 250.5 0.3 0:07 hashd  '',
      demo_relay_row,
      ''Tasks: 4 total'']"
  by (simp add: demo_top_output_def demo_relay_row_def py_strip_def is_space_def py_split_lines_def)

lemma demo_raw_lines:
  "py_split_lines demo_top_output =
     [''  PID USER PR NI VIRT RES SHR S %CPU %MEM TIME COMMAND'',
      ''  101 app 20 0 9000 800 700 R 99.0 1.2 0:42 xmrig'',
      ''  102 app 20 0 9000 800 700 S 1.5 0.3 0:01 node'',
      ''  103 app 20 0 9000 800 700 R 250.5 0.3 0:07 hashd  '',
      demo_relay_row,
      ''Tasks: 4 total'', []]"
  by (simp add: demo_top_output_def demo_relay_row_def py_split_lines_def)

lemma demo_header_column:
  "py_split ''PID USER PR NI VIRT RES SHR S %CPU %MEM TIME COMMAND'' ! 8 = ''%CPU''"
  "length (py_split ''PID USER PR NI VIRT RES SHR S %CPU %MEM TIME COMMAND'') = 12"
  "demo_float ''%CPU'' = None"
  by (simp_all add: py_split_def is_space_def demo_float_def)

lemma demo_relay_columns:
  "py_split demo_relay_row
     = [''104'', ''app'', ''20'', ''0'', ''9000'', ''800'', ''700'', ''R'', ''95.5'', ''0.3'', ''0:09'', ''relay'']"
  by (simp add: demo_relay_row_def py_split_def is_space_def)

lemma demo_hot_lines:
  "\<not> hot_line demo_float limit ''PID USER PR NI VIRT RES SHR S %CPU %MEM TIME COMMAND''"
  "\<not> hot_line demo_float limit ''  PID USER PR NI VIRT RES SHR S %CPU %MEM TIME COMMAND''"
  "hot_line demo_float limit ''  101 app 20 0 9000 800 700 R 99.0 1.2 0:42 xmrig'' = fl_less limit (Fin 99)"
  "hot_line demo_float limit ''  102 app 20 0 9000 800 700 S 1.5 0.3 0:01 node'' = fl_less limit (Fin (3 / 2))"
  "hot_line demo_float limit ''  103 app 20 0 9000 800 700 R 250.5 0.3 0:07 hashd  '' = fl_less limit (Fin (501 / 2))"
  "\<not> hot_line demo_float limit ''Tasks: 4 total''"
  "\<not> hot_line demo_float limit []"
  by (simp_all add: hot_line_def py_split_def is_space_def demo_float_def)

lemma demo_hot_relay:
  "hot_line demo_float limit demo_relay_row = fl_less limit (Fin (191 / 2))"
  by (simp add: hot_line_def demo_relay_columns demo_float_def)

lemma demo_stripped:
  "py_strip ''  101 app 20 0 9000 800 700 R 99.0 1.2 0:42 xmrig'' = ''101 app 20 0 9000 800 700 R 99.0 1.2 0:42 xmrig''"
  "py_strip ''  102 app 20 0 9000 800 700 S 1.5 0.3 0:01 node'' = ''102 app 20 0 9000 800 700 S 1.5 0.3 0:01 node''"
  "py_strip ''  103 app 20 0 9000 800 700 R 250.5 0.3 0:07 hashd  '' = ''103 app 20 0 9000 800 700 R 250.5 0.3 0:07 hashd''"
  "py_strip demo_relay_row = ''104 app 20 0 9000 800 700 R'' @ [CHR 0xA0] @ ''95.5 0.3 0:09 relay''"
  by (simp_all add: py_strip_def is_space_def demo_relay_row_def)

lemma demo_exec:
  "exec_run demo_container (JStr ''top -b -n 1'') = Inr demo_top_output"
  "py_float demo_world = demo_float"
  by (simp_all add: demo_container_def demo_world_def)

lemma demo_process_evidence:
  "process_check demo_world demo_container demo_process_config
     = Inr (Some (no_evidence\<lparr>processes :=
         Some [''101 app 20 0 9000 800 700 R 99.0 1.2 0:42 xmrig'',
               ''103 app 20 0 9000 800 700 R 250.5 0.3 0:07 hashd'',
               ''104 app 20 0 9000 800 700 R'' @ [CHR 0xA0] @ ''95.5 0.3 0:09 relay'']\<rparr>))"
proof -
  have "exec_run demo_container (dict_get demo_process_config ''command'') = Inr demo_top_output"
    by (simp add: demo_process_config_def dict_get_def demo_exec)
  moreover have "as_number (dict_get_default demo_process_config ''cpu_threshold'' (JInt 0)) = Some (Fin 80)"
    by (simp add: demo_process_config_def dict_get_default_def)
  ultimately show ?thesis
    by (simp add: process_check_numeric demo_lines demo_hot_lines demo_hot_relay demo_stripped demo_exec)
qed

text \<open>
  C8, as stated, fails: the evidence does not hold the lines as the command printed
  them. In the example the process table indents its rows; the two rows above the limit
  are reported without their leading and trailing blanks.
\<close>

theorem process_evidence_raw_lines_counterexample:
  "process_check demo_world demo_container demo_process_config
     = Inr (Some (no_evidence\<lparr>processes :=
         Some [''101 app 20 0 9000 800 700 R 99.0 1.2 0:42 xmrig'',
               ''103 app 20 0 9000 800 700 R 250.5 0.3 0:07 hashd'',
               ''104 app 20 0 9000 800 700 R'' @ [CHR 0xA0] @ ''95.5 0.3 0:09 relay'']\<rparr>))
   \<and> spec_matching_lines demo_float (Fin 80) demo_top_output
     = [''  101 app 20 0 9000 800 700 R 99.0 1.2 0:42 xmrig'',
        ''  103 app 20 0 9000 800 700 R 250.5 0.3 0:07 hashd  '',
        ''  104 app 20 0 9000 800 700 R'' @ [CHR 0xA0] @ ''95.5 0.3 0:09 relay'' @ [CHR 0xA0]]
   \<and> process_check demo_world demo_container demo_process_config
     \<noteq> Inr (Some (no_evidence\<lparr>processes := Some (spec_matching_lines demo_float (Fin 80) demo_top_output)\<rparr>))"
proof -
  have raw: "spec_matching_lines demo_float (Fin 80) demo_top_output
     = [''  101 app 20 0 9000 800 700 R 99.0 1.2 0:42 xmrig'',
        ''  103 app 20 0 9000 800 700 R 250.5 0.3 0:07 hashd  '',
        ''  104 app 20 0 9000 800 700 R'' @ [CHR 0xA0] @ ''95.5 0.3 0:09 relay'' @ [CHR 0xA0]]"
    by (simp add: spec_matching_lines_def demo_raw_lines demo_hot_lines demo_hot_relay)
       (simp add: demo_relay_row_def)
  show ?thesis
    unfolding raw demo_process_evidence by (simp add: no_evidence_def)
qed

text \<open>
  C8, amended. When the command runs and \<^verbatim>\<open>cpu_threshold\<close> is a number (or absent),
  \<^verbatim>\<open>process_check\<close> matches exactly when some line of the output, split on whitespace, has
  more than eight columns and a column 8 that \<^verbatim>\<open>float\<close> parses to a value strictly above
  the limit. On a match the evidence \<^verbatim>\<open>processes\<close> is the sequence of all such lines, in
  output order, each stripped of leading and trailing whitespace. A line with fewer than
  nine columns, or whose column 8 does not parse, is not such a line and does not end the
  check.
\<close>

theorem process_check_reports_stripped_lines:
  assumes "exec_run cont (dict_get cfg ''command'') = Inr output"
      and "as_number (dict_get_default cfg ''cpu_threshold'' (JInt 0)) = Some limit"
  shows "process_check w cont cfg =
           (if filter (hot_line (py_float w) limit) (py_split_lines (py_strip output)) = [] then Inr None
            else Inr (Some (no_evidence\<lparr>processes :=
                   Some (map py_strip (filter (hot_line (py_float w) limit) (py_split_lines (py_strip output))))\<rparr>)))
       \<and> (\<forall>line. length (py_split line) \<le> 8 \<longrightarrow> \<not> hot_line (py_float w) limit line)
       \<and> (\<forall>line. py_float w (py_split line ! 8) = None \<longrightarrow> \<not> hot_line (py_float w) limit line)
       \<and> (\<forall>line cpu. 8 < length (py_split line) \<and> py_float w (py_split line ! 8) = Some cpu
              \<longrightarrow> hot_line (py_float w) limit line = fl_less limit cpu)"
  using process_check_numeric [OF assms, of w]
  by (simp add: hot_line_def)

theorem process_check_reports_stripped_lines_witness:
  "exec_run demo_container (dict_get demo_process_config ''command'') = Inr demo_top_output
   \<and> as_number (dict_get_default demo_process_config ''cpu_threshold'' (JInt 0)) = Some (Fin 80)
   \<and> filter (hot_line (py_float demo_world) (Fin 80)) (py_split_lines (py_strip demo_top_output))
       = [''  101 app 20 0 9000 800 700 R 99.0 1.2 0:42 xmrig'',
          ''  103 app 20 0 9000 800 700 R 250.5 0.3 0:07 hashd  '',
          demo_relay_row]
   \<and> py_split demo_relay_row ! 8 = ''95.5''
   \<and> process_check demo_world demo_container demo_process_config
       = Inr (Some (no_evidence\<lparr>processes :=
           Some [''101 app 20 0 9000 800 700 R 99.0 1.2 0:42 xmrig'',
                 ''103 app 20 0 9000 800 700 R 250.5 0.3 0:07 hashd'',
                 ''104 app 20 0 9000 800 700 R'' @ [CHR 0xA0] @ ''95.5 0.3 0:09 relay'']\<rparr>))"
proof -
  have run: "exec_run demo_container (dict_get demo_process_config ''command'') = Inr demo_top_output"
    by (simp add: demo_process_config_def dict_get_def demo_exec)
  have limit: "as_number (dict_get_default demo_process_config ''cpu_threshold'' (JInt 0)) = Some (Fin 80)"
    by (simp add: demo_process_config_def dict_get_default_def)
  from process_check_reports_stripped_lines [OF run limit, of demo_world]
  show ?thesis
    using run limit
    by (simp add: demo_lines demo_hot_lines demo_hot_relay demo_stripped demo_exec demo_relay_columns)
qed

section \<open>Network usage and absent limits\<close>

lemma total_usage_split: "total_usage s = received s + transmitted s"
  by (simp add: total_usage_def received_def transmitted_def interface_bytes_def sum_list_addf)

lemma network_usage_numeric:
  assumes "stats cont = Inr s"
      and "as_number (dict_get_default cfg ''threshold'' (JInt 0)) = Some limit"
  shows "network_usage_check cont cfg =
           (if fl_less limit (Fin (of_int (total_usage s)))
            then Inr (Some (no_evidence\<lparr>usage := Some (total_usage s)\<rparr>)) else Inr None)"
  using assms by (simp add: network_usage_check_def py_gt_def Let_def)

lemma format_megabytes: "format_usage 1100000 = Inr ''1.05''"
  by (simp add: format_usage_def usage_text_def round53_def round_half_even_def Let_def
      decimal.simps digit_char_def)

lemma render_usage_field:
  "replace_placeholders w (JStr ''{usage}'') (no_evidence\<lparr>usage := Some 1100000\<rparr>) = Inr ''1.05''"
  by (simp add: replace_placeholders_def format_megabytes is_digit_def is_special_def emit_def)

text \<open>
  C5. With statistics at hand and a numeric \<^verbatim>\<open>threshold\<close>, \<^verbatim>\<open>network_usage_check\<close>
  matches exactly when the received plus the transmitted bytes of all interfaces exceed
  the threshold strictly, and the evidence \<^verbatim>\<open>usage\<close> is that total. With an integer
  threshold this is the comparison of integers. When the interfaces sum to 600000
  received and 500000 transmitted bytes and the threshold is 1000000, the check matches
  with usage 1100000, and the placeholder \<^verbatim>\<open>{usage}\<close> renders as \<^verbatim>\<open>1.05\<close>.
\<close>

theorem network_usage_exceeds_threshold:
  assumes "stats cont = Inr s"
      and "as_number (dict_get_default cfg ''threshold'' (JInt 0)) = Some limit"
  shows "network_usage_check cont cfg =
           (if fl_less limit (Fin (of_int (received s + transmitted s)))
            then Inr (Some (no_evidence\<lparr>usage := Some (received s + transmitted s)\<rparr>)) else Inr None)
       \<and> (\<forall>n. limit = Fin (of_int n) \<longrightarrow>
             network_usage_check cont cfg =
               (if n < received s + transmitted s
                then Inr (Some (no_evidence\<lparr>usage := Some (received s + transmitted s)\<rparr>)) else Inr None))
       \<and> (received s = 600000 \<and> transmitted s = 500000 \<and> limit = Fin 1000000 \<longrightarrow>
             network_usage_check cont cfg = Inr (Some (no_evidence\<lparr>usage := Some 1100000\<rparr>))
             \<and> replace_placeholders w (JStr ''{usage}'') (no_evidence\<lparr>usage := Some 1100000\<rparr>) = Inr ''1.05'')"
  using network_usage_numeric [OF assms]
  by (auto simp: total_usage_split render_usage_field)

theorem network_usage_exceeds_threshold_witness:
  "stats demo_container
     = Inr \<lparr>networks = Some [(''eth0'', \<lparr>rx_bytes = Some 400000, tx_bytes = Some 500000\<rparr>),
                             (''eth1'', \<lparr>rx_bytes = Some 200000, tx_bytes = None\<rparr>)]\<rparr>
   \<and> as_number (dict_get_default demo_network_config ''threshold'' (JInt 0)) = Some (Fin 1000000)
   \<and> network_usage_check demo_container demo_network_config
       = Inr (Some (no_evidence\<lparr>usage := Some 1100000\<rparr>))
   \<and> replace_placeholders demo_world (JStr ''{usage}'') (no_evidence\<lparr>usage := Some 1100000\<rparr>) = Inr ''1.05''"
proof -
  define s where "s = \<lparr>networks = Some [(''eth0'', \<lparr>rx_bytes = Some 400000, tx_bytes = Some 500000\<rparr>),
                                      (''eth1'', \<lparr>rx_bytes = Some 200000, tx_bytes = None\<rparr>)]\<rparr>"
  have st: "stats demo_container = Inr s"
    by (simp add: demo_container_def s_def)
  have limit: "as_number (dict_get_default demo_network_config ''threshold'' (JInt 0)) = Some (Fin 1000000)"
    by (simp add: demo_network_config_def dict_get_default_def)
  have sums: "received s = 600000" "transmitted s = 500000"
    by (simp_all add: received_def transmitted_def s_def)
  from network_usage_exceeds_threshold [OF st limit, of demo_world]
  show ?thesis
    using st limit sums by (simp add: s_def)
qed
lemma file_size_default:
  assumes "map_of cfg ''max_size'' = None" and "map_of cfg ''type'' = Some (JStr ''file_size'')"
      and "map_of cfg ''path'' = Some (JStr p)" and "p \<noteq> []"
      and "path_exists w (os_path_join vol p)" and "getsize w (os_path_join vol p) = Inr sz"
  shows "file_check w vol cfg =
           (if 0 < sz then Inr (Some (no_evidence\<lparr>filename := Some (basename (os_path_join vol p))\<rparr>))
            else Inr None)"
  using assms
  by (simp add: file_check_def file_size_check_def dict_get_def dict_get_default_def py_gt_def Let_def)

lemma process_default:
  assumes "map_of cfg ''cpu_threshold'' = None" and "exec_run cont (dict_get cfg ''command'') = Inr output"
  shows "process_check w cont cfg =
           (if filter (hot_line (py_float w) (Fin 0)) (py_split_lines (py_strip output)) = [] then Inr None
            else Inr (Some (no_evidence\<lparr>processes :=
                   Some (map py_strip (filter (hot_line (py_float w) (Fin 0)) (py_split_lines (py_strip output))))\<rparr>)))"
proof -
  have "as_number (dict_get_default cfg ''cpu_threshold'' (JInt 0)) = Some (Fin 0)"
    using assms(1) by (simp add: dict_get_default_def)
  from process_check_numeric [OF assms(2) this] show ?thesis .
qed

lemma network_default:
  assumes "map_of cfg ''threshold'' = None" and "stats cont = Inr s"
  shows "network_usage_check cont cfg =
           (if 0 < received s + transmitted s
            then Inr (Some (no_evidence\<lparr>usage := Some (received s + transmitted s)\<rparr>)) else Inr None)"
proof -
  have "as_number (dict_get_default cfg ''threshold'' (JInt 0)) = Some (Fin 0)"
    using assms(1) by (simp add: dict_get_default_def)
  from network_usage_numeric [OF assms(2) this] show ?thesis
    by (simp add: total_usage_split)
qed

text \<open>
  C10. A limit that is absent from the check configuration counts as zero. A
  \<^verbatim>\<open>file_size\<close> check without \<^verbatim>\<open>max_size\<close> matches an existing path exactly when its size
  is positive. A \<^verbatim>\<open>process_check\<close> without \<^verbatim>\<open>cpu_threshold\<close> reports the lines whose
  column 8 parses to a value above zero, so every such line of the output is in the
  evidence. A \<^verbatim>\<open>network_usage\<close> check without \<^verbatim>\<open>threshold\<close> matches exactly when the summed
  byte counters of the interfaces are positive.
\<close>

theorem absent_limits_default_to_zero:
  "(\<forall>cfg p sz.
      map_of cfg ''max_size'' = None \<and> map_of cfg ''type'' = Some (JStr ''file_size'')
      \<and> map_of cfg ''path'' = Some (JStr p) \<and> p \<noteq> []
      \<and> path_exists w (os_path_join vol p) \<and> getsize w (os_path_join vol p) = Inr sz
      \<longrightarrow> file_check w vol cfg =
            (if 0 < sz then Inr (Some (no_evidence\<lparr>filename := Some (basename (os_path_join vol p))\<rparr>))
             else Inr None))
   \<and> (\<forall>cfg output.
      map_of cfg ''cpu_threshold'' = None \<and> exec_run cont (dict_get cfg ''command'') = Inr output
      \<longrightarrow> process_check w cont cfg =
            (if filter (hot_line (py_float w) (Fin 0)) (py_split_lines (py_strip output)) = [] then Inr None
             else Inr (Some (no_evidence\<lparr>processes :=
                    Some (map py_strip (filter (hot_line (py_float w) (Fin 0))
                                               (py_split_lines (py_strip output))))\<rparr>))))
   \<and> (\<forall>cfg output line cpu.
      map_of cfg ''cpu_threshold'' = None \<and> exec_run cont (dict_get cfg ''command'') = Inr output
      \<and> line \<in> set (py_split_lines (py_strip output))
      \<and> 8 < length (py_split line) \<and> py_float w (py_split line ! 8) = Some cpu \<and> fl_less (Fin 0) cpu
      \<longrightarrow> (\<exists>reported. process_check w cont cfg = Inr (Some (no_evidence\<lparr>processes := Some reported\<rparr>))
                      \<and> py_strip line \<in> set reported))
   \<and> (\<forall>cfg s.
      map_of cfg ''threshold'' = None \<and> stats cont = Inr s
      \<longrightarrow> network_usage_check cont cfg =
            (if 0 < received s + transmitted s
             then Inr (Some (no_evidence\<lparr>usage := Some (received s + transmitted s)\<rparr>)) else Inr None))"
proof (intro conjI allI impI)
  fix cfg p sz
  assume "map_of cfg ''max_size'' = None \<and> map_of cfg ''type'' = Some (JStr ''file_size'')
      \<and> map_of cfg ''path'' = Some (JStr p) \<and> p \<noteq> []
      \<and> path_exists w (os_path_join vol p) \<and> getsize w (os_path_join vol p) = Inr sz"
  then show "file_check w vol cfg =
            (if 0 < sz then Inr (Some (no_evidence\<lparr>filename := Some (basename (os_path_join vol p))\<rparr>))
             else Inr None)"
    by (intro file_size_default) simp_all
next
  fix cfg outp
  assume "map_of cfg ''cpu_threshold'' = None \<and> exec_run cont (dict_get cfg ''command'') = Inr outp"
  then show "process_check w cont cfg =
            (if filter (hot_line (py_float w) (Fin 0)) (py_split_lines (py_strip outp)) = [] then Inr None
             else Inr (Some (no_evidence\<lparr>processes :=
                    Some (map py_strip (filter (hot_line (py_float w) (Fin 0))
                                               (py_split_lines (py_strip outp))))\<rparr>)))"
    by (intro process_default) simp_all
next
  fix cfg outp line cpu
  assume h: "map_of cfg ''cpu_threshold'' = None \<and> exec_run cont (dict_get cfg ''command'') = Inr outp
      \<and> line \<in> set (py_split_lines (py_strip outp))
      \<and> 8 < length (py_split line) \<and> py_float w (py_split line ! 8) = Some cpu \<and> fl_less (Fin 0) cpu"
  then have hot: "hot_line (py_float w) (Fin 0) line"
    by (simp add: hot_line_def)
  with h have member: "line \<in> set (filter (hot_line (py_float w) (Fin 0)) (py_split_lines (py_strip outp)))"
    by simp
  then have nonempty: "filter (hot_line (py_float w) (Fin 0)) (py_split_lines (py_strip outp)) \<noteq> []"
    by (auto simp: filter_empty_conv)
  from h have run: "process_check w cont cfg =
            (if filter (hot_line (py_float w) (Fin 0)) (py_split_lines (py_strip outp)) = [] then Inr None
             else Inr (Some (no_evidence\<lparr>processes :=
                    Some (map py_strip (filter (hot_line (py_float w) (Fin 0))
                                               (py_split_lines (py_strip outp))))\<rparr>)))"
    by (intro process_default) simp_all
  from member have "py_strip line
      \<in> set (map py_strip (filter (hot_line (py_float w) (Fin 0)) (py_split_lines (py_strip outp))))"
    by (simp only: set_map) (rule imageI)
  with run nonempty
  show "\<exists>reported. process_check w cont cfg = Inr (Some (no_evidence\<lparr>processes := Some reported\<rparr>))
                      \<and> py_strip line \<in> set reported"
    by (simp only: if_False) blast
next
  fix cfg :: "(string \<times> json) list" and s
  assume "map_of cfg ''threshold'' = None \<and> stats cont = Inr s"
  then show "network_usage_check cont cfg =
            (if 0 < received s + transmitted s
             then Inr (Some (no_evidence\<lparr>usage := Some (received s + transmitted s)\<rparr>)) else Inr None)"
    by (intro network_default) simp_all
qed

theorem absent_limits_default_to_zero_witness:
  "file_check demo_world ''/volumes/c1'' [(''type'', JStr ''file_size''), (''path'', JStr ''big.bin'')]
     = Inr (Some (no_evidence\<lparr>filename := Some ''big.bin''\<rparr>))
   \<and> process_check demo_world demo_container [(''type'', JStr ''process_check''), (''command'', JStr ''top -b -n 1'')]
     = Inr (Some (no_evidence\<lparr>processes :=
         Some [''101 app 20 0 9000 800 700 R 99.0 1.2 0:42 xmrig'',
               ''102 app 20 0 9000 800 700 S 1.5 0.3 0:01 node'',
               ''103 app 20 0 9000 800 700 R 250.5 0.3 0:07 hashd'',
               ''104 app 20 0 9000 800 700 R'' @ [CHR 0xA0] @ ''95.5 0.3 0:09 relay'']\<rparr>))
   \<and> network_usage_check demo_container [(''type'', JStr ''network_usage'')]
     = Inr (Some (no_evidence\<lparr>usage := Some 1100000\<rparr>))"
proof -
  note t = absent_limits_default_to_zero [of demo_world "''/volumes/c1''" demo_container]
  have fc: "file_check demo_world ''/volumes/c1'' [(''type'', JStr ''file_size''), (''path'', JStr ''big.bin'')]
     = Inr (Some (no_evidence\<lparr>filename := Some ''big.bin''\<rparr>))"
    using t [THEN conjunct1, rule_format,
             of "[(''type'', JStr ''file_size''), (''path'', JStr ''big.bin'')]" "''big.bin''" 2048]
    by (simp add: demo_world_def os_path_join_def basename_def)
  have proc: "process_check demo_world demo_container
                [(''type'', JStr ''process_check''), (''command'', JStr ''top -b -n 1'')]
     = Inr (Some (no_evidence\<lparr>processes :=
         Some [''101 app 20 0 9000 800 700 R 99.0 1.2 0:42 xmrig'',
               ''102 app 20 0 9000 800 700 S 1.5 0.3 0:01 node'',
               ''103 app 20 0 9000 800 700 R 250.5 0.3 0:07 hashd'',
               ''104 app 20 0 9000 800 700 R'' @ [CHR 0xA0] @ ''95.5 0.3 0:09 relay'']\<rparr>))"
    using t [THEN conjunct2, THEN conjunct1, rule_format,
             of "[(''type'', JStr ''process_check''), (''command'', JStr ''top -b -n 1'')]" demo_top_output]
    by (simp add: dict_get_def demo_exec demo_lines demo_hot_lines demo_hot_relay demo_stripped)
  have net: "network_usage_check demo_container [(''type'', JStr ''network_usage'')]
     = Inr (Some (no_evidence\<lparr>usage := Some 1100000\<rparr>))"
    using t [THEN conjunct2, THEN conjunct2, THEN conjunct2, rule_format,
             of "[(''type'', JStr ''network_usage'')]"
                "\<lparr>networks = Some [(''eth0'', \<lparr>rx_bytes = Some 400000, tx_bytes = Some 500000\<rparr>),
                                    (''eth1'', \<lparr>rx_bytes = Some 200000, tx_bytes = None\<rparr>)]\<rparr>"]
    by (simp add: demo_container_def received_def transmitted_def)
  from fc proc net show ?thesis by simp
qed

section \<open>Dependencies\<close>















section \<open>Strategy loader\<close>

lemma load_loop_filter:
  "map Inr (load_loop files acc) = map Inr acc @ filter loadable (map snd files)"
proof (induction files arbitrary: acc)
  case Nil
  then show ?case by simp
next
  case (Cons f files)
  show ?case
  proof (cases "snd f")
    case (Inl e)
    then show ?thesis using Cons.IH by (simp add: loadable_def)
  next
    case (Inr strategy)
    then show ?thesis using Cons.IH
      by (cases strategy) (auto simp: loadable_def split: json.splits)
  qed
qed

lemma strategies_loop_empty: "strategies_loop w vol cont [] flags = Inr flags"
  by simp

lemma check_volume_no_strategies: "check_volume w uuid [] = Inr []"
  by (simp add: check_volume_def Let_def split: sum.splits)

lemma scan_loop_no_strategies:
  "scan_loop w [] uuids st
     = st\<lparr>trace := trace st
            @ map CheckVolume (filter (\<lambda>u. \<not> truthy (dict_get (flagged_containers st) u)) uuids)\<rparr>"
  by (induction uuids arbitrary: st)
     (simp_all add: scan_container_def check_volume_no_strategies emit_event_def Let_def)

text \<open>
  C6, as stated, fails: a rule whose name is present but empty has a name, a type and a
  sequence of checks, and the loader omits it.
\<close>

theorem present_but_empty_name_counterexample:
  "spec_well_formed (JObj [(''name'', JStr []), (''type'', JStr ''abuse''), (''checks'', JArr [])])
   \<and> strategy_files nameless_world
       = [(''nameless.protect'', Inr (JObj [(''name'', JStr []), (''type'', JStr ''abuse''), (''checks'', JArr [])]))]
   \<and> load_strategies nameless_world = []"
  by (simp add: spec_well_formed_def nameless_world_def load_strategies_def dict_get_def)

text \<open>
  C6, amended. The loader returns, in directory order and unchanged, exactly the
  contents that were read and parsed, are dictionaries, have a truthy \<^verbatim>\<open>name\<close> (present and
  not empty, zero, false or null), a truthy \<^verbatim>\<open>type\<close>, and a list under \<^verbatim>\<open>checks\<close>. Every
  other file is omitted and the files after it are still loaded. When no content
  qualifies the result is the empty list; a scan with no strategies gives no flags for
  any volume, and a sweep with no strategies only scans: it changes no entry of the
  flagged dictionary and makes no other call.
\<close>

theorem load_strategies_keeps_valid_rules:
  "map Inr (load_strategies w) = filter loadable (map snd (strategy_files w))
   \<and> (\<forall>before file after.
        strategy_files w = before @ file # after \<and> \<not> loadable (snd file)
        \<longrightarrow> map Inr (load_strategies w)
              = filter loadable (map snd before) @ filter loadable (map snd after))
   \<and> ((\<forall>file \<in> set (strategy_files w). \<not> loadable (snd file)) \<longrightarrow> load_strategies w = [])
   \<and> check_volume w' uuid [] = Inr []
   \<and> scan_loop w' [] uuids st
       = st\<lparr>trace := trace st
              @ map CheckVolume (filter (\<lambda>u. \<not> truthy (dict_get (flagged_containers st) u)) uuids)\<rparr>"
proof -
  have main: "map Inr (load_strategies w) = filter loadable (map snd (strategy_files w))"
    using load_loop_filter [of "strategy_files w" "[]"] by (simp add: load_strategies_def)
  have none: "load_strategies w = []" if "\<forall>file \<in> set (strategy_files w). \<not> loadable (snd file)"
  proof -
    from that have "filter loadable (map snd (strategy_files w)) = []"
      by (auto simp: filter_empty_conv)
    with main show ?thesis by simp
  qed
  from main none show ?thesis
    by (auto simp: check_volume_no_strategies scan_loop_no_strategies)
qed

theorem load_strategies_keeps_valid_rules_witness:
  "load_strategies demo_world = [demo_rule]
   \<and> loadable (Inr demo_rule)
   \<and> strategy_files demo_world
       = [(''miners.protect'', Inr demo_rule),
          (''broken.protect'', Inl ValueError),
          (''nameless.protect'', Inr (JObj [(''name'', JStr []), (''type'', JStr ''abuse''), (''checks'', JArr [])])),
          (''nochecks.protect'', Inr (JObj [(''name'', JStr ''x''), (''type'', JStr ''abuse'')]))]
   \<and> check_volume demo_world ''c1'' [] = Inr []"
proof -
  have files: "strategy_files demo_world
       = [(''miners.protect'', Inr demo_rule),
          (''broken.protect'', Inl ValueError),
          (''nameless.protect'', Inr (JObj [(''name'', JStr []), (''type'', JStr ''abuse''), (''checks'', JArr [])])),
          (''nochecks.protect'', Inr (JObj [(''name'', JStr ''x''), (''type'', JStr ''abuse'')]))]"
    by (simp add: demo_world_def)
  have ok: "loadable (Inr demo_rule)"
    by (simp add: loadable_def demo_rule_def dict_get_def)
  have bad: "\<not> loadable (Inl ValueError)"
    "\<not> loadable (Inr (JObj [(''name'', JStr []), (''type'', JStr ''abuse''), (''checks'', JArr [])]))"
    "\<not> loadable (Inr (JObj [(''name'', JStr ''x''), (''type'', JStr ''abuse'')]))"
    by (simp_all add: loadable_def dict_get_def)
  from load_strategies_keeps_valid_rules [of demo_world demo_world "''c1''" "[]" demo_state]
  have "map Inr (load_strategies demo_world) = [Inr demo_rule :: exn + json]"
    and "check_volume demo_world ''c1'' [] = Inr []"
    using files ok bad by simp_all
  then have "load_strategies demo_world = [demo_rule]" "check_volume demo_world ''c1'' [] = Inr []"
    by (auto simp: map_eq_Cons_conv)
  with ok files show ?thesis by simp
qed

section \<open>Failures stay inside a check\<close>

lemma loaded_strategy_has_name:
  assumes "s \<in> set (load_strategies w0)"
  shows "\<exists>n. py_subscript s ''name'' = Inr n"
proof -
  from assms have "Inr s \<in> set (map Inr (load_strategies w0) :: (exn + json) list)"
    by simp
  then have "loadable (Inr s)"
    using load_loop_filter [of "strategy_files w0" "[]"] by (simp add: load_strategies_def)
  then obtain d where d: "s = JObj d" and "truthy (dict_get d ''name'')"
    by (auto simp: loadable_def split: json.splits)
  then have "map_of d ''name'' \<noteq> None"
    by (auto simp: dict_get_def split: option.splits)
  with d show ?thesis by auto
qed

lemma strategies_loop_total:
  assumes "\<And>s. s \<in> set ss \<Longrightarrow> \<exists>n. py_subscript s ''name'' = Inr n"
  shows "\<exists>fs. strategies_loop w vol cont ss flags = Inr fs"
  using assms
proof (induction ss arbitrary: flags)
  case Nil
  then show ?case by simp
next
  case (Cons s ss)
  then obtain n where "py_subscript s ''name'' = Inr n" by auto
  from execute_strategy_total [OF this] obtain fs where "execute_strategy w s vol cont = Inr fs"
    by blast
  moreover have "\<exists>fs'. strategies_loop w vol cont ss (flags @ fs) = Inr fs'"
    using Cons.prems by (intro Cons.IH) simp
  ultimately show ?case by simp
qed

lemma check_volume_loaded:
  "\<exists>flags. check_volume w uuid (load_strategies w0) = Inr flags"
proof -
  have "\<exists>fs. strategies_loop w vol cont (load_strategies w0) [] = Inr fs" for vol cont
    by (rule strategies_loop_total) (rule loaded_strategy_has_name)
  then show ?thesis
    by (auto simp: check_volume_def Let_def split: sum.splits)
qed

lemma demo_process_flag:
  "check_flags demo_world ''/volumes/c1'' demo_container (JObj demo_process_config)
     = [''Busy: 101 app 20 0 9000 800 700 R 99.0 1.2 0:42 xmrig, 103 app 20 0 9000 800 700 R 250.5 0.3 0:07 hashd, 104 app 20 0 9000 800 700 R''
        @ [CHR 0xA0] @ ''95.5 0.3 0:09 relay'']"
proof -
  have ty: "dict_get demo_process_config ''type'' = JStr ''process_check''"
    and msg: "dict_get_default demo_process_config ''message'' (JStr ''An undefined issue was detected'')
                = JStr ''Busy: {processes}''"
    and ne: "demo_process_config \<noteq> []"
    by (simp_all add: demo_process_config_def dict_get_def dict_get_default_def)
  have zero: "format_usage 0 = Inr ''0.00''"
    by (simp add: format_usage_def usage_text_def round53_def round_half_even_def Let_def
        decimal.simps digit_char_def)
  have "check_body demo_world ''/volumes/c1'' demo_container demo_process_config (JStr ''Busy: {processes}'')
          = Inr (Some (''Busy: 101 app 20 0 9000 800 700 R 99.0 1.2 0:42 xmrig, 103 app 20 0 9000 800 700 R 250.5 0.3 0:07 hashd, 104 app 20 0 9000 800 700 R''
                       @ [CHR 0xA0] @ ''95.5 0.3 0:09 relay''))"
    by (simp add: check_body_def ty demo_process_evidence replace_placeholders_def no_evidence_def zero
        emit_def is_digit_def is_special_def)
  then show ?thesis
    by (simp add: check_flags_def ty msg ne)
qed

text \<open>
  C3, as stated, fails for one of the failures it lists: a malformed numeric field met
  while a check runs does not always leave the check without a flag. In the example the
  header of the process table has \<^verbatim>\<open>%CPU\<close> in column 8, on which \<^verbatim>\<open>float\<close> raises
  \<^verbatim>\<open>ValueError\<close>; the check skips that line only and still appends its flag for the rows
  above the limit.
\<close>

theorem malformed_column_counterexample:
  "exec_run demo_container (dict_get demo_process_config ''command'') = Inr demo_top_output
   \<and> hd (py_split_lines (py_strip demo_top_output)) = ''PID USER PR NI VIRT RES SHR S %CPU %MEM TIME COMMAND''
   \<and> py_split (py_strip ''PID USER PR NI VIRT RES SHR S %CPU %MEM TIME COMMAND'') ! 8 = ''%CPU''
   \<and> py_float demo_world ''%CPU'' = None
   \<and> check_flags demo_world ''/volumes/c1'' demo_container (JObj demo_process_config)
       = [''Busy: 101 app 20 0 9000 800 700 R 99.0 1.2 0:42 xmrig, 103 app 20 0 9000 800 700 R 250.5 0.3 0:07 hashd, 104 app 20 0 9000 800 700 R''
          @ [CHR 0xA0] @ ''95.5 0.3 0:09 relay'']"
proof -
  have "exec_run demo_container (dict_get demo_process_config ''command'') = Inr demo_top_output"
    by (simp add: demo_process_config_def dict_get_def demo_exec)
  then show ?thesis
    using demo_process_flag
    by (simp add: demo_lines demo_header_column demo_exec py_split_strip)
qed

text \<open>
  C3, amended. No exception leaves the loop of \<^verbatim>\<open>execute_strategy\<close>: for a strategy that
  has a name the run returns a flag list, whatever the checks, the container and the world
  are. A check whose evaluation raises (in the evaluator, or while rendering the message)
  appends nothing, and the flags of the run are those of the checks before it followed by
  those of the checks after it. The failures the evaluators catch themselves give
  "no match": a failing log fetch, a failing command, failing statistics, an unreadable or
  unparsable dependency file, and a limit of the check configuration that is not a number.
  A column of the process table that does not parse does not fail the check: the loop
  skips that line and goes on with the lines after it, which may still raise a flag. The
  strategies the loader returns all have a name, so a scan of a volume with them returns a
  flag list.
\<close>

theorem check_exception_is_contained:
  assumes "py_subscript strategy ''name'' = Inr name"
  shows "(\<exists>flags. execute_strategy w strategy vol cont = Inr flags)
       \<and> (\<forall>before cfg after e.
             py_get strategy ''checks'' JNull = Inr (JArr (before @ JObj cfg # after))
             \<and> check_body w vol cont cfg
                  (dict_get_default cfg ''message'' (JStr ''An undefined issue was detected'')) = Inl e
             \<longrightarrow> check_flags w vol cont (JObj cfg) = []
               \<and> execute_strategy w strategy vol cont
                   = Inr (checks_loop w vol cont before [] @ checks_loop w vol cont after []))
       \<and> (\<forall>cfg e. logs_tail cont = Inl e \<longrightarrow> log_content_check cont cfg = Inr None)
       \<and> (\<forall>cfg e. exec_run cont (dict_get cfg ''command'') = Inl e \<longrightarrow> process_check w cont cfg = Inr None)
       \<and> (\<forall>cfg e. stats cont = Inl e \<longrightarrow> network_usage_check cont cfg = Inr None)
       \<and> (\<forall>cfg fname e.
             dict_get_default cfg ''file'' (JStr ''package.json'') = JStr fname
             \<and> load_json w (os_path_join vol fname) = Inl e
             \<longrightarrow> dependency_check w vol cfg = Inr None)
       \<and> (\<forall>cfg. as_number (dict_get_default cfg ''cpu_threshold'' (JInt 0)) = None
             \<longrightarrow> process_check w cont cfg = Inr None)
       \<and> (\<forall>cfg. as_number (dict_get_default cfg ''threshold'' (JInt 0)) = None
             \<longrightarrow> network_usage_check cont cfg = Inr None)
       \<and> (\<forall>w0 uuid. \<exists>flags. check_volume w uuid (load_strategies w0) = Inr flags)
       \<and> (\<forall>pf limit line rest acc.
             8 < length (py_split (py_strip line)) \<and> pf (py_split (py_strip line) ! 8) = None
             \<longrightarrow> process_loop pf limit (line # rest) acc = process_loop pf limit rest acc)"
proof (intro conjI allI impI)
  fix pf :: "string \<Rightarrow> pyfloat option" and limit line rest acc
  assume "8 < length (py_split (py_strip line)) \<and> pf (py_split (py_strip line) ! 8) = None"
  then show "process_loop pf limit (line # rest) acc = process_loop pf limit rest acc"
    by (simp add: Let_def)
next
  show "\<exists>flags. execute_strategy w strategy vol cont = Inr flags"
    using assms by (rule execute_strategy_total)
next
  fix before cfg after e
  assume h: "py_get strategy ''checks'' JNull = Inr (JArr (before @ JObj cfg # after))
             \<and> check_body w vol cont cfg
                  (dict_get_default cfg ''message'' (JStr ''An undefined issue was detected'')) = Inl e"
  then show none: "check_flags w vol cont (JObj cfg) = []"
    by (simp add: check_flags_def Let_def)
  from h none show "execute_strategy w strategy vol cont
                   = Inr (checks_loop w vol cont before [] @ checks_loop w vol cont after [])"
    using assms by (simp add: execute_strategy_checks checks_loop_append)
next
  fix cfg e assume "logs_tail cont = Inl e"
  then show "log_content_check cont cfg = Inr None"
    by (simp add: log_content_check_def Let_def)
next
  fix cfg e assume "exec_run cont (dict_get cfg ''command'') = Inl e"
  then show "process_check w cont cfg = Inr None"
    by (simp add: process_check_def Let_def)
next
  fix cfg e assume "stats cont = Inl e"
  then show "network_usage_check cont cfg = Inr None"
    by (simp add: network_usage_check_def Let_def)
next
  fix cfg fname e
  assume "dict_get_default cfg ''file'' (JStr ''package.json'') = JStr fname
             \<and> load_json w (os_path_join vol fname) = Inl e"
  then show "dependency_check w vol cfg = Inr None"
    by (simp add: dependency_check_def dependency_scan_def Let_def)
next
  fix cfg assume "as_number (dict_get_default cfg ''cpu_threshold'' (JInt 0)) = None"
  then show "process_check w cont cfg = Inr None"
    by (rule process_check_bad_threshold)
next
  fix cfg assume "as_number (dict_get_default cfg ''threshold'' (JInt 0)) = None"
  then show "network_usage_check cont cfg = Inr None"
    by (simp add: network_usage_check_def py_gt_def Let_def split: sum.splits)
next
  fix w0 uuid
  show "\<exists>flags. check_volume w uuid (load_strategies w0) = Inr flags"
    by (rule check_volume_loaded)
qed

theorem check_exception_is_contained_witness:
  "py_subscript demo_rule ''name'' = Inr (JStr ''miners'')
   \<and> check_body demo_world ''/volumes/c1'' demo_container
        [(''type'', JStr ''file_size''), (''path'', JStr ''big.bin''), (''max_size'', JStr ''1 MB''),
         (''message'', JStr ''Large file {filename}'')]
        (JStr ''Large file {filename}'') = Inl TypeError
   \<and> execute_strategy demo_world demo_rule ''/volumes/c1'' demo_container
       = Inr [''Dependency malicious-lib-v2 is banned'']"
proof -
  have name: "py_subscript demo_rule ''name'' = Inr (JStr ''miners'')"
    by (simp add: demo_rule_def)
  have checks: "py_get demo_rule ''checks'' JNull
      = Inr (JArr ([] @ JObj [(''type'', JStr ''file_size''), (''path'', JStr ''big.bin''),
                               (''max_size'', JStr ''1 MB''), (''message'', JStr ''Large file {filename}'')]
                   # [demo_unknown_check, demo_dependency_check]))"
    by (simp add: demo_rule_def demo_size_check_def dict_get_default_def)
  have unknown: "check_flags demo_world ''/volumes/c1'' demo_container demo_unknown_check = []"
    by (rule unknown_kind_no_flag) (simp add: declared_kind_def demo_unknown_check_def known_kinds_def)
  from check_exception_is_contained
         [OF name, of demo_world "''/volumes/c1''" demo_container,
          THEN conjunct2, THEN conjunct1, rule_format,
          of "[]" _ "[demo_unknown_check, demo_dependency_check]" TypeError]
  have "execute_strategy demo_world demo_rule ''/volumes/c1'' demo_container
        = Inr (checks_loop demo_world ''/volumes/c1'' demo_container [] []
               @ checks_loop demo_world ''/volumes/c1'' demo_container
                   [demo_unknown_check, demo_dependency_check] [])"
    using checks demo_size_check_raises by (simp add: dict_get_default_def)
  then show ?thesis
    using name demo_size_check_raises unknown demo_dependency_flag by simp
qed
section \<open>Rendering\<close>

lemma bit_len_pos: "0 < a \<Longrightarrow> 2 ^ (bit_len a - 1) \<le> a"
proof (induction a rule: bit_len.induct)
  case (1 n)
  show ?case
  proof (cases "n = 1")
    case True
    then show ?thesis by (simp add: bit_len.simps [of 1] bit_len.simps [of 0])
  next
    case False
    with "1.prems" have big: "0 < n div 2" by linarith
    with "1.IH" "1.prems" have ih: "2 ^ (bit_len (n div 2) - 1) \<le> n div 2" by simp
    from big have "0 < bit_len (n div 2)" by (simp add: bit_len.simps [of "n div 2"])
    then have "(2::int) ^ bit_len (n div 2) = 2 * 2 ^ (bit_len (n div 2) - 1)"
      by (cases "bit_len (n div 2)") simp_all
    moreover have "bit_len n - 1 = bit_len (n div 2)"
      using "1.prems" by (simp add: bit_len.simps [of n])
    ultimately show ?thesis using ih by simp linarith
  qed
qed

lemma round_half_even_le: "0 < den \<Longrightarrow> round_half_even num den \<le> num div den + 1"
  by (simp add: round_half_even_def Let_def)

lemma round53_bound:
  assumes "0 \<le> a" and "a < 2 ^ 1033"
  shows "round53 a < 2 ^ 1034"
proof (cases "a < 2 ^ 53")
  case True
  then have "round53 a = a" by (simp add: round53_def)
  also have "a < 2 ^ 1034" using True by (rule less_trans) simp
  finally show ?thesis .
next
  case False
  define e where "e = bit_len a - 53"
  from False have pos: "0 < a" by (smt (verit) zero_less_power)
  have "(2::int) ^ e \<le> 2 ^ (bit_len a - 1)"
    unfolding e_def by (rule power_increasing) simp_all
  with bit_len_pos [OF pos] have small: "2 ^ e \<le> a" by linarith
  have "round_half_even a (2 ^ e) * 2 ^ e \<le> (a div 2 ^ e + 1) * 2 ^ e"
    by (rule mult_right_mono) (simp_all add: round_half_even_le)
  also have "\<dots> = a div 2 ^ e * 2 ^ e + 2 ^ e" by (simp add: algebra_simps)
  also have "\<dots> \<le> a + 2 ^ e"
  proof -
    have "a div 2 ^ e * 2 ^ e = a - a mod 2 ^ e" by (simp add: minus_mod_eq_div_mult)
    moreover have "0 \<le> a mod 2 ^ e" by simp
    ultimately show ?thesis by linarith
  qed
  also have "\<dots> \<le> 2 * a" using small by simp
  also have "\<dots> < 2 ^ 1034" using assms(2) by simp
  finally show ?thesis using False by (simp add: round53_def Let_def e_def)
qed
lemma emit_Inr: "emit v (Inr t) = Inr (v @ t)"
  by (simp add: emit_def)

lemma format_field_name:
  assumes "list_all (\<lambda>c. c \<noteq> CHR 0x7D \<and> c \<noteq> CHR 0x7B \<and> \<not> is_special c) n"
      and "\<not> list_all is_digit (acc @ n)" and "map_of kw (acc @ n) = Some v"
  shows "format_field w kw acc (n @ CHR 0x7D # rest) = emit v (format_text w kw rest)"
  using assms
proof (induction n arbitrary: acc)
  case Nil
  then show ?case by simp
next
  case (Cons c n)
  from Cons.prems have "format_field w kw (acc @ [c]) (n @ CHR 0x7D # rest) = emit v (format_text w kw rest)"
    by (intro Cons.IH) simp_all
  with Cons.prems(1) show ?case by simp
qed

lemma format_text_placeholder:
  assumes "n \<noteq> []"
      and "list_all (\<lambda>c. c \<noteq> CHR 0x7D \<and> c \<noteq> CHR 0x7B \<and> \<not> is_special c) n"
      and "\<not> list_all is_digit n" and "map_of kw n = Some v"
  shows "format_text w kw (piece_text (Placeholder n) @ rest) = emit v (format_text w kw rest)"
proof -
  from assms(1) obtain c cs where n: "n = c # cs" by (cases n) auto
  with assms(2) have "c \<noteq> CHR 0x7B" by simp
  then have "format_text w kw (piece_text (Placeholder n) @ rest)
               = format_field w kw [] (n @ CHR 0x7D # rest)"
    by (simp add: n)
  also have "\<dots> = emit v (format_text w kw rest)"
    using assms(2,3,4) by (intro format_field_name) simp_all
  finally show ?thesis .
qed

lemma format_text_lit:
  "format_text w kw (piece_text (Lit c) @ rest) = emit [c] (format_text w kw rest)"
  by simp

lemma placeholder_names_simple:
  assumes "n \<in> set placeholder_names"
  shows "n \<noteq> [] \<and> list_all (\<lambda>c. c \<noteq> CHR 0x7D \<and> c \<noteq> CHR 0x7B \<and> \<not> is_special c) n
         \<and> \<not> list_all is_digit n"
  using assms by (auto simp: placeholder_names_def is_special_def is_digit_def)

lemma format_text_pieces:
  assumes "list_all known_piece ps"
      and "\<And>n. n \<in> set placeholder_names \<Longrightarrow> map_of kw n = Some (substituted data (Placeholder n))"
  shows "format_text w kw (template_of ps) = Inr (concat (map (substituted data) ps))"
  using assms(1)
proof (induction ps)
  case Nil
  then show ?case by (simp add: template_of_def)
next
  case (Cons p ps)
  then have ih: "format_text w kw (template_of ps) = Inr (concat (map (substituted data) ps))"
    by simp
  have split: "template_of (q # ps) = piece_text q @ template_of ps" for q
    by (simp add: template_of_def)
  show ?case
  proof (cases p)
    case (Lit c)
    show ?thesis
      unfolding Lit split format_text_lit ih emit_Inr by simp
  next
    case (Placeholder n)
    with Cons.prems have known: "n \<in> set placeholder_names"
      by (simp add: known_piece_def)
    from placeholder_names_simple [OF known] assms(2) [OF known]
    have "format_text w kw (piece_text (Placeholder n) @ template_of ps)
            = emit (substituted data (Placeholder n)) (format_text w kw (template_of ps))"
      by (intro format_text_placeholder) simp_all
    then show ?thesis
      unfolding Placeholder split ih emit_Inr by simp
  qed
qed

lemma usage_text_zero: "usage_text 0 = ''0.00''"
  by (simp add: usage_text_def round53_def round_half_even_def Let_def decimal.simps digit_char_def)

lemma bit_len_upper: "0 \<le> a \<Longrightarrow> a < 2 ^ bit_len a"
proof (induction a rule: bit_len.induct)
  case (1 n)
  show ?case
  proof (cases "n = 0")
    case True
    then show ?thesis by simp
  next
    case False
    with "1.prems" have pos: "0 < n" by simp
    then have "n div 2 < 2 ^ bit_len (n div 2)"
      using "1.IH" by simp
    moreover have "bit_len n = Suc (bit_len (n div 2))"
      using pos by (simp add: bit_len.simps [of n])
    ultimately show ?thesis by simp
  qed
qed

lemma bit_len_between:
  assumes "2 ^ n \<le> a" and "a < 2 ^ Suc n"
  shows "bit_len a = Suc n"
proof -
  from assms(1) have pos: "0 < a" by (smt (verit) zero_less_power)
  have "(2::int) ^ n < 2 ^ bit_len a"
    using assms(1) bit_len_upper [of a] pos by linarith
  then have lower: "n < bit_len a" by simp
  have "(2::int) ^ (bit_len a - 1) < 2 ^ Suc n"
    using bit_len_pos [OF pos] assms(2) by linarith
  then have "bit_len a - 1 < Suc n" by (simp only: power_strict_increasing_iff)
  with lower show ?thesis by linarith
qed

lemma round53_top_binade:
  assumes "2 ^ 1033 \<le> a" and "a < 2 ^ 1034 - 2 ^ 980"
  shows "round53 a < 2 ^ 1034"
proof -
  have "a < 2 ^ Suc 1033" using assms(2) by simp
  with assms(1) have len: "bit_len a = Suc 1033" by (rule bit_len_between)
  define q where "q = a div 2 ^ 981"
  define r where "r = a mod 2 ^ 981"
  have a: "a = q * 2 ^ 981 + r" by (simp add: q_def r_def)
  have r: "0 \<le> r" "r < 2 ^ 981" by (simp_all add: r_def)
  have big: "\<not> a < 2 ^ 53" using assms(1) by simp
  have "round_half_even a (2 ^ 981) \<le> 2 ^ 53 - 1"
    using a r assms(2) unfolding round_half_even_def Let_def q_def [symmetric] r_def [symmetric]
    by simp
  then have "round_half_even a (2 ^ 981) * 2 ^ 981 \<le> (2 ^ 53 - 1) * 2 ^ 981"
    by (rule mult_right_mono) simp
  also have "\<dots> < (2::int) ^ 1034" by simp
  finally show ?thesis
    using big len by (simp add: round53_def Let_def)
qed

lemma round53_no_overflow:
  assumes "0 \<le> a" and "a < 2 ^ 1034 - 2 ^ 980"
  shows "round53 a < 2 ^ 1034"
proof (cases "a < 2 ^ 1033")
  case True
  with assms(1) show ?thesis by (rule round53_bound)
next
  case False
  then have "2 ^ 1033 \<le> a" by simp
  then show ?thesis using assms(2) by (rule round53_top_binade)
qed

lemma format_usage_overflow: "format_usage (2 ^ 1034 - 2 ^ 980) = Inl OverflowError"
proof -
  have "bit_len (2 ^ 1034 - 2 ^ 980) = Suc 1033"
    by (rule bit_len_between) simp_all
  then have "bit_len (2 ^ 1034 - 2 ^ 980) - 53 = 981" by simp
  moreover have "((2::int) ^ 1034 - 2 ^ 980) mod 2 ^ 981 = 2 ^ 980"
    "((2::int) ^ 1034 - 2 ^ 980) div 2 ^ 981 = 2 ^ 53 - 1"
    by simp_all
  ultimately have "round53 (2 ^ 1034 - 2 ^ 980) = 2 ^ 1034"
    by (simp add: round53_def round_half_even_def Let_def)
  then show ?thesis by (simp add: format_usage_def)
qed

text \<open>
  C4, as stated, fails: rendering raises for a template that names a placeholder other
  than the five, for a template with a lone brace, for a message that is not a string, and
  for a usage too large for a float, the smallest of which is \<open>2 ^ 1034 - 2 ^ 980\<close>.
\<close>

theorem rendering_raises_counterexample:
  "replace_placeholders demo_world (JStr ''Found {name}'') no_evidence = Inl KeyError
   \<and> replace_placeholders demo_world (JStr ''CPU at 100% {'') no_evidence = Inl ValueError
   \<and> replace_placeholders demo_world (JInt 5) no_evidence = Inl AttributeError
   \<and> replace_placeholders demo_world (JStr ''{usage}'') (no_evidence\<lparr>usage := Some (2 ^ 1034 - 2 ^ 980)\<rparr>)
       = Inl OverflowError"
proof -
  have zero: "format_usage 0 = Inr ''0.00''"
    by (simp add: format_usage_def round53_def usage_text_zero)
  have "replace_placeholders demo_world (JStr ''Found {name}'') no_evidence = Inl KeyError"
    by (simp add: replace_placeholders_def no_evidence_def zero emit_def is_digit_def is_special_def)
  moreover have "replace_placeholders demo_world (JStr ''CPU at 100% {'') no_evidence = Inl ValueError"
    by (simp add: replace_placeholders_def no_evidence_def zero emit_def)
  moreover have "replace_placeholders demo_world (JInt 5) no_evidence = Inl AttributeError"
    by (simp add: replace_placeholders_def)
  moreover have "replace_placeholders demo_world (JStr ''{usage}'')
                   (no_evidence\<lparr>usage := Some (2 ^ 1034 - 2 ^ 980)\<rparr>)
       = Inl OverflowError"
    unfolding replace_placeholders_def using format_usage_overflow
    by (simp del: power_numeral add: no_evidence_def)
  ultimately show ?thesis by simp
qed

text \<open>
  C4, amended. For a string template made of literal text (a literal brace written
  doubled) and replacement fields of the bare form \<^verbatim>\<open>{pattern}\<close>, \<^verbatim>\<open>{filename}\<close>,
  \<^verbatim>\<open>{dependency}\<close>, \<^verbatim>\<open>{usage}\<close> or \<^verbatim>\<open>{processes}\<close> (a name between braces, with no
  conversion, format specification, attribute or index), and for evidence whose usage,
  when present, is below \<open>2 ^ 1034 - 2 ^ 980\<close> in absolute value, rendering does not raise:
  it returns the template with every placeholder substituted. A placeholder whose field is
  absent from the evidence is substituted with the empty string, and an absent \<^verbatim>\<open>usage\<close>
  with \<^verbatim>\<open>0.00\<close>.
\<close>

theorem known_placeholders_render:
  assumes "list_all known_piece ps"
      and "(case usage data of None \<Rightarrow> 0 | Some u \<Rightarrow> \<bar>u\<bar>) < 2 ^ 1034 - 2 ^ 980"
  shows "replace_placeholders w (JStr (template_of ps)) data = Inr (concat (map (substituted data) ps))
       \<and> (pattern data = None \<longrightarrow> substituted data (Placeholder ''pattern'') = [])
       \<and> (filename data = None \<longrightarrow> substituted data (Placeholder ''filename'') = [])
       \<and> (dependency data = None \<longrightarrow> substituted data (Placeholder ''dependency'') = [])
       \<and> (processes data = None \<longrightarrow> substituted data (Placeholder ''processes'') = [])
       \<and> (usage data = None \<longrightarrow> substituted data (Placeholder ''usage'') = ''0.00'')"
proof -
  define n where "n = (case usage data of None \<Rightarrow> 0 | Some u \<Rightarrow> u)"
  have "\<bar>n\<bar> < 2 ^ 1034 - 2 ^ 980"
    using assms(2) by (simp add: n_def split: option.splits)
  then have "round53 \<bar>n\<bar> < 2 ^ 1034"
    by (intro round53_no_overflow) simp_all
  then have usage: "format_usage n = Inr (usage_text n)"
    by (simp add: format_usage_def)
  define kw where "kw =
    [(''pattern'', case pattern data of None \<Rightarrow> [] | Some p \<Rightarrow> p),
     (''filename'', case filename data of None \<Rightarrow> [] | Some f \<Rightarrow> f),
     (''dependency'', case dependency data of None \<Rightarrow> [] | Some d \<Rightarrow> d),
     (''usage'', usage_text n),
     (''processes'', join_comma (case processes data of None \<Rightarrow> [] | Some ps \<Rightarrow> ps))]"
  have lookup: "map_of kw m = Some (substituted data (Placeholder m))" if "m \<in> set placeholder_names" for m
    using that by (auto simp: placeholder_names_def kw_def n_def)
  have "replace_placeholders w (JStr (template_of ps)) data = format_text w kw (template_of ps)"
    using usage by (simp add: replace_placeholders_def kw_def n_def)
  also have "\<dots> = Inr (concat (map (substituted data) ps))"
    using assms(1) lookup by (rule format_text_pieces)
  finally show ?thesis
    by (simp add: usage_text_zero)
qed

theorem known_placeholders_render_witness:
  "template_of [Placeholder ''filename'', Lit CHR '':'', Lit CHR '' '', Placeholder ''usage'', Lit CHR '' '',
                Lit CHR ''M'', Lit CHR ''B'', Lit CHR '' '', Lit (CHR 0x7B), Placeholder ''pattern'', Lit (CHR 0x7D)]
     = ''{filename}: {usage} MB {{{pattern}}}''
   \<and> replace_placeholders demo_world (JStr ''{filename}: {usage} MB {{{pattern}}}'')
        (no_evidence\<lparr>filename := Some ''miner.exe''\<rparr>)
     = Inr ''miner.exe: 0.00 MB {}''"
proof -
  define ps where "ps = [Placeholder ''filename'', Lit CHR '':'', Lit CHR '' '', Placeholder ''usage'', Lit CHR '' '',
                Lit CHR ''M'', Lit CHR ''B'', Lit CHR '' '', Lit (CHR 0x7B), Placeholder ''pattern'', Lit (CHR 0x7D)]"
  have t: "template_of ps = ''{filename}: {usage} MB {{{pattern}}}''"
    by (simp add: ps_def template_of_def)
  have k: "list_all known_piece ps"
    by (simp add: ps_def known_piece_def placeholder_names_def)
  have u: "(case usage (no_evidence\<lparr>filename := Some ''miner.exe''\<rparr>) of None \<Rightarrow> 0 | Some u \<Rightarrow> \<bar>u\<bar>)
             < 2 ^ 1034 - 2 ^ 980"
    by (simp add: no_evidence_def)
  from known_placeholders_render [OF k u, of demo_world, THEN conjunct1]
  have "replace_placeholders demo_world (JStr ''{filename}: {usage} MB {{{pattern}}}'')
          (no_evidence\<lparr>filename := Some ''miner.exe''\<rparr>)
        = Inr ''miner.exe: 0.00 MB {}''"
    unfolding t by (simp add: ps_def no_evidence_def usage_text_zero)
  with t show ?thesis by (simp add: ps_def)
qed

end
